theory Spec2Isabelle
  imports Complex_Main "HOL-Library.Sublist" "HOL-Library.Word"
begin

section \<open>Filters in the query string (web/app/pages/Project/View/utils/filters.tsx)\<close>

text \<open>
  JavaScript strings are modelled as \<open>string\<close>, one \<open>char\<close> per code unit.
  A \<open>URLSearchParams\<close> object is the ordered list of its (key, value) pairs:
  \<open>append\<close> adds a pair at the end, \<open>delete\<close> removes every pair of a key,
  \<open>has\<close> tests for a key and \<open>forEach\<close> visits the pairs in order.
\<close>

type_synonym URLSearchParams = "(string \<times> string) list"

definition sp_has :: "URLSearchParams \<Rightarrow> string \<Rightarrow> bool" where
  "sp_has searchParams name = list_ex (\<lambda>kv. fst kv = name) searchParams"

definition sp_delete :: "URLSearchParams \<Rightarrow> string \<Rightarrow> URLSearchParams" where
  "sp_delete searchParams name = filter (\<lambda>kv. fst kv \<noteq> name) searchParams"

definition sp_append :: "URLSearchParams \<Rightarrow> string \<Rightarrow> string \<Rightarrow> URLSearchParams" where
  "sp_append searchParams name v = searchParams @ [(name, v)]"

text \<open>
  \<open>String.prototype.indexOf\<close>, as lodash's \<open>_includes\<close> uses it on a string:
  the position of the first occurrence of the pattern, if there is one.
\<close>

fun indexOf :: "string \<Rightarrow> string \<Rightarrow> nat option" where
  "indexOf [] pat = (if pat = [] then Some 0 else None)"
| "indexOf (c # cs) pat =
     (if prefix pat (c # cs) then Some 0 else map_option Suc (indexOf cs pat))"

definition includes_str :: "string \<Rightarrow> string \<Rightarrow> bool" where
  "includes_str s pat = (indexOf s pat \<noteq> None)"

text \<open>
  \<open>_replace(s, pat, rep)\<close> with a string pattern is \<open>String.prototype.replace\<close>:
  only the first occurrence of the pattern is replaced.
\<close>

fun js_replace :: "string \<Rightarrow> string \<Rightarrow> string \<Rightarrow> string" where
  "js_replace [] pat rep = (if pat = [] then rep else [])"
| "js_replace (c # cs) pat rep =
     (if prefix pat (c # cs) then rep @ drop (length pat) (c # cs)
      else c # js_replace cs pat rep)"

definition startsWith :: "string \<Rightarrow> string \<Rightarrow> bool" where
  "startsWith s target = prefix target s"

definition substring :: "string \<Rightarrow> nat \<Rightarrow> string" where
  "substring s n = drop n s"

definition validFilters :: "string list" where
  "validFilters =
     [''cc'', ''rg'', ''ct'', ''pg'', ''lc'', ''ref'', ''dv'', ''br'', ''os'', ''so'',
      ''me'', ''ca'', ''ev'', ''tag:key'', ''tag:value'', ''ev:key'', ''ev:value'']"

definition validDynamicFilters :: "string list" where
  "validDynamicFilters = [''ev:key:'', ''tag:key:'']"

definition isFilterValid :: "string \<Rightarrow> bool \<Rightarrow> bool" where
  "isFilterValid flt checkDynamicFilters =
     (if flt \<in> set validFilters then True
      else if checkDynamicFilters
              \<and> list_ex (\<lambda>pre. startsWith flt pre) validDynamicFilters then True
      else False)"

text \<open>
  \<open>IFilter\<close>: the \<open>filter\<close> field holds one string or an array of strings
  (\<open>applyFilters\<close> tests it with \<open>Array.isArray\<close>).
\<close>

datatype filter_value = FStr string | FArr "string list"

record IFilter =
  column :: string
  filter_value :: filter_value
  isExclusive :: bool

text \<open>
  The body of \<open>searchParams.forEach\<close> in \<open>parseFiltersFromUrl\<close>, run over the
  pairs in order; \<open>initialFilters\<close> is the array the callback pushes to.
\<close>

fun parse_forEach :: "string \<Rightarrow> URLSearchParams \<Rightarrow> IFilter list \<Rightarrow> IFilter list" where
  "parse_forEach keySuffix [] initialFilters = initialFilters"
| "parse_forEach keySuffix ((key, val) # rest) initialFilters =
     (if \<not> includes_str key keySuffix then parse_forEach keySuffix rest initialFilters
      else
        let keyWithoutSuffix = js_replace key keySuffix [] in
        if \<not> isFilterValid keyWithoutSuffix False
        then parse_forEach keySuffix rest initialFilters
        else
          let isExcl = startsWith val ''!'' in
          parse_forEach keySuffix rest
            (initialFilters @
               [\<lparr>column = keyWithoutSuffix,
                 filter_value = FStr (if isExcl then substring val 1 else val),
                 isExclusive = isExcl\<rparr>]))"

text \<open>
  \<open>parseFiltersFromUrl\<close> returns what it hands to \<open>setFilters\<close>; nothing in the
  loop throws, and \<open>setParsedFlag(true)\<close> runs in every case.
\<close>

definition parseFiltersFromUrl :: "string \<Rightarrow> URLSearchParams \<Rightarrow> IFilter list" where
  "parseFiltersFromUrl keySuffix searchParams = parse_forEach keySuffix searchParams []"

text \<open>The entry the loop pushes for a pair it retains.\<close>

definition entry_of :: "string \<Rightarrow> string \<times> string \<Rightarrow> IFilter" where
  "entry_of keySuffix kv =
     \<lparr>column = js_replace (fst kv) keySuffix [],
       filter_value = FStr (if startsWith (snd kv) ''!'' then substring (snd kv) 1 else snd kv),
       isExclusive = startsWith (snd kv) ''!''\<rparr>"

text \<open>
  \<open>applyFilters\<close>: the test \<open>!item.filter\<close> holds for the empty string and for no
  array; \<open>filters\<close> is the array itself or the one-element array of the string.
  The model threads the query string and \<open>filtersToLoad\<close> through the loop and
  returns both.
\<close>

fun falsy :: "filter_value \<Rightarrow> bool" where
  "falsy (FStr s) = (s = [])"
| "falsy (FArr a) = False"

fun as_array :: "filter_value \<Rightarrow> string list" where
  "as_array (FArr a) = a"
| "as_array (FStr s) = [s]"

fun applyFilters_forEach ::
  "IFilter list \<Rightarrow> string \<Rightarrow> bool \<Rightarrow> URLSearchParams \<times> IFilter list
     \<Rightarrow> URLSearchParams \<times> IFilter list" where
  "applyFilters_forEach [] sfx override st = st"
| "applyFilters_forEach (item # items) sfx override (searchParams, filtersToLoad) =
     (if falsy (filter_value item)
      then applyFilters_forEach items sfx override (searchParams, filtersToLoad)
      else
        let filters = as_array (filter_value item) in
        if length filters = 0
        then applyFilters_forEach items sfx override (searchParams, filtersToLoad)
        else
          let columnSuffix = column item @ sfx;
              searchParams' =
                (if override \<or> \<not> sp_has searchParams columnSuffix
                 then foldl (\<lambda>sp flt. sp_append sp columnSuffix flt)
                        (sp_delete searchParams columnSuffix) filters
                 else searchParams)
          in applyFilters_forEach items sfx override
               (searchParams', filtersToLoad @ [item]))"

definition applyFilters ::
  "IFilter list \<Rightarrow> string \<Rightarrow> URLSearchParams \<Rightarrow> bool \<Rightarrow> URLSearchParams \<times> IFilter list" where
  "applyFilters items sfx searchParams override =
     applyFilters_forEach items sfx override (searchParams, [])"

text \<open>
  \<open>updateFilterState\<close>, with the filter a string: \<open>findIndex\<close> gives the first
  index whose \<open>filter\<close> is strictly equal to it. The result is \<open>updatedFilters\<close>
  together with the query string after the \<open>delete\<close> or the \<open>append\<close>.
\<close>

fun findIndex :: "('a \<Rightarrow> bool) \<Rightarrow> 'a list \<Rightarrow> nat option" where
  "findIndex P [] = None"
| "findIndex P (x # xs) = (if P x then Some 0 else map_option Suc (findIndex P xs))"

definition updateFilterState ::
  "URLSearchParams \<Rightarrow> IFilter list \<Rightarrow> string \<Rightarrow> string \<Rightarrow> string \<Rightarrow> bool
     \<Rightarrow> IFilter list \<times> URLSearchParams" where
  "updateFilterState searchParams filters col columnSuffix flt isExcl =
     (case findIndex (\<lambda>f. filter_value f = FStr flt) filters of
        Some existingFilterIndex \<Rightarrow>
          (take existingFilterIndex filters @ drop (Suc existingFilterIndex) filters,
           sp_delete searchParams col)
      | None \<Rightarrow>
          (filters @ [\<lparr>column = columnSuffix, filter_value = FStr flt, isExclusive = isExcl\<rparr>],
           sp_append searchParams col flt))"

text \<open>
  The encoding as the specification words it, to compare with \<open>applyFilters\<close>: every value of
  a filter is appended under the key \<open>column + suffix\<close>, with a leading \<open>!\<close> when
  the filter is exclusive.
\<close>

definition encode_as_specified :: "string \<Rightarrow> IFilter list \<Rightarrow> URLSearchParams" where
  "encode_as_specified sfx items =
     concat (map (\<lambda>i. map (\<lambda>v. (column i @ sfx, if isExclusive i then ''!'' @ v else v))
                         (as_array (filter_value i))) items)"

section \<open>The analytics controller: ingestion\<close>

text \<open>
  An exception is represented by its class; the messages play no part in the control
  flow. \<open>'a outcome\<close> is the result of a call that may throw.
\<close>

datatype exn =
    BadRequestException
  | ForbiddenException
  | UnprocessableEntityException
  | InternalServerErrorException
  | StoreError
  | TypeError

type_synonym 'a outcome = "exn + 'a"

subsection \<open>\<open>isPerformanceValid\<close>\<close>

text \<open>
  \<open>isPerformanceValid\<close> takes \<open>perf: any\<close> and compares each field with \<open><=\<close> and
  \<open>>=\<close>, which convert the field to a number first (ToNumber). A field of the
  payload is one of the primitive values of a JSON document. A number is the value of
  a double, or one of the two infinities a literal beyond the range of the doubles
  is read as; \<open>NaN\<close> comes out of the conversion only.
\<close>

datatype js_number = Finite real | PosInfinity | NegInfinity | NaN

datatype js_value = VNull | VBool bool | VNumber js_number | VString string

text \<open>
  The payload is the list of its members in the order of the document. A property
  that is absent reads as \<open>undefined\<close> (\<open>None\<close>); of a key that is repeated the last
  value is the one that is read.
\<close>

type_synonym js_object = "(string \<times> js_value) list"

definition get_prop :: "js_object \<Rightarrow> string \<Rightarrow> js_value option" where
  "get_prop obj k = map_of (rev obj) k"

text \<open>
  ToNumber: \<open>undefined\<close> becomes \<open>NaN\<close>, \<open>null\<close> becomes 0, \<open>false\<close> and \<open>true\<close>
  become 0 and 1, a number stays. A string goes through the conversion of the
  runtime (StringToNumber), which is a parameter.
\<close>

definition to_number :: "(string \<Rightarrow> js_number) \<Rightarrow> js_value option \<Rightarrow> js_number" where
  "to_number stn v =
     (case v of
        None \<Rightarrow> NaN
      | Some VNull \<Rightarrow> Finite 0
      | Some (VBool b) \<Rightarrow> Finite (if b then 1 else 0)
      | Some (VNumber n) \<Rightarrow> n
      | Some (VString s) \<Rightarrow> stn s)"

text \<open>\<open>x <= y\<close> and \<open>x >= y\<close> for a number \<open>x\<close>: every comparison with \<open>NaN\<close> is false.\<close>

definition js_le :: "js_number \<Rightarrow> real \<Rightarrow> bool" where
  "js_le x y =
     (case x of Finite v \<Rightarrow> v \<le> y | NegInfinity \<Rightarrow> True | PosInfinity \<Rightarrow> False | NaN \<Rightarrow> False)"

definition js_ge :: "js_number \<Rightarrow> real \<Rightarrow> bool" where
  "js_ge x y =
     (case x of Finite v \<Rightarrow> v \<ge> y | PosInfinity \<Rightarrow> True | NegInfinity \<Rightarrow> False | NaN \<Rightarrow> False)"

definition MAX_PERFORMANCE_VALUE :: real where
  "MAX_PERFORMANCE_VALUE = 1000 * 60 * 5"

definition isPerformanceValid :: "(string \<Rightarrow> js_number) \<Rightarrow> js_object \<Rightarrow> bool" where
  "isPerformanceValid stn perf =
     (js_le (to_number stn (get_prop perf ''dns'')) MAX_PERFORMANCE_VALUE \<and>
      js_le (to_number stn (get_prop perf ''tls'')) MAX_PERFORMANCE_VALUE \<and>
      js_le (to_number stn (get_prop perf ''conn'')) MAX_PERFORMANCE_VALUE \<and>
      js_le (to_number stn (get_prop perf ''response'')) MAX_PERFORMANCE_VALUE \<and>
      js_le (to_number stn (get_prop perf ''render'')) MAX_PERFORMANCE_VALUE \<and>
      js_le (to_number stn (get_prop perf ''dom_load'')) MAX_PERFORMANCE_VALUE \<and>
      js_le (to_number stn (get_prop perf ''page_load'')) MAX_PERFORMANCE_VALUE \<and>
      js_le (to_number stn (get_prop perf ''ttfb'')) MAX_PERFORMANCE_VALUE \<and>
      js_ge (to_number stn (get_prop perf ''dns'')) 0 \<and>
      js_ge (to_number stn (get_prop perf ''tls'')) 0 \<and>
      js_ge (to_number stn (get_prop perf ''conn'')) 0 \<and>
      js_ge (to_number stn (get_prop perf ''response'')) 0 \<and>
      js_ge (to_number stn (get_prop perf ''render'')) 0 \<and>
      js_ge (to_number stn (get_prop perf ''dom_load'')) 0 \<and>
      js_ge (to_number stn (get_prop perf ''page_load'')) 0 \<and>
      js_ge (to_number stn (get_prop perf ''ttfb'')) 0)"

text \<open>
  \<open>_isEmpty\<close> on the optional payload: \<open>undefined\<close> and \<open>{}\<close> are empty. (A payload
  that is \<open>null\<close>, a number or a boolean is empty as well; one that is a string or an
  array is empty when it has no element and has none of the eight properties
  otherwise, like an object without them.)
\<close>

definition isEmpty_obj :: "js_object option \<Rightarrow> bool" where
  "isEmpty_obj perf = (case perf of None \<Rightarrow> True | Some obj \<Rightarrow> obj = [])"

text \<open>
  A conversion of strings to numbers for running the handlers on concrete payloads:
  the value of a StringNumericLiteral (white space around it, an optional sign,
  \<open>Infinity\<close>, decimal digits with an optional fraction and exponent, or the prefixes
  \<open>0x\<close>, \<open>0o\<close>, \<open>0b\<close>), zero for the empty string, \<open>NaN\<close> for any other text. It
  gives the exact value of the literal, which the runtime rounds to the nearest
  double.
\<close>

definition is_str_ws :: "char \<Rightarrow> bool" where
  "is_str_ws c =
     (c \<in> {CHR 0x09, CHR 0x0A, CHR 0x0B, CHR 0x0C, CHR 0x0D, CHR 0x20, CHR 0xA0})"

definition str_trim :: "string \<Rightarrow> string" where
  "str_trim s = rev (dropWhile is_str_ws (rev (dropWhile is_str_ws s)))"

definition digit_value :: "char \<Rightarrow> nat option" where
  "digit_value c =
     (case findIndex (\<lambda>x. x = c) ''0123456789abcdef'' of
        Some i \<Rightarrow> Some i
      | None \<Rightarrow> map_option (\<lambda>i. i + 10) (findIndex (\<lambda>x. x = c) ''ABCDEF''))"

definition is_digit_in :: "nat \<Rightarrow> char \<Rightarrow> bool" where
  "is_digit_in base c = (case digit_value c of None \<Rightarrow> False | Some d \<Rightarrow> d < base)"

definition digits_value :: "nat \<Rightarrow> string \<Rightarrow> nat" where
  "digits_value base ds =
     foldl (\<lambda>acc c. acc * base + (case digit_value c of None \<Rightarrow> 0 | Some d \<Rightarrow> d)) 0 ds"

definition scale10 :: "nat \<Rightarrow> int \<Rightarrow> real" where
  "scale10 n k = (if 0 \<le> k then real n * 10 ^ nat k else real n / 10 ^ nat (- k))"

definition exponent_value :: "string \<Rightarrow> int option" where
  "exponent_value s =
     (let (neg, ds) = (case s of
                         c # t \<Rightarrow> if c = CHR ''-'' then (True, t)
                                  else if c = CHR ''+'' then (False, t) else (False, s)
                       | [] \<Rightarrow> (False, s))
      in if ds = [] \<or> \<not> list_all (is_digit_in 10) ds then None
         else Some (if neg then - int (digits_value 10 ds) else int (digits_value 10 ds)))"

definition unsigned_decimal_value :: "string \<Rightarrow> real option" where
  "unsigned_decimal_value s =
     (let ip = takeWhile (is_digit_in 10) s;
          r1 = dropWhile (is_digit_in 10) s;
          (fp, r2) = (case r1 of
                        c # t \<Rightarrow> if c = CHR ''.''
                                 then (takeWhile (is_digit_in 10) t, dropWhile (is_digit_in 10) t)
                                 else ([], r1)
                      | [] \<Rightarrow> ([], r1));
          ex = (case r2 of
                  [] \<Rightarrow> Some 0
                | c # t \<Rightarrow> if c = CHR ''e'' \<or> c = CHR ''E'' then exponent_value t else None)
      in if ip = [] \<and> fp = [] then None
         else (case ex of
                 None \<Rightarrow> None
               | Some k \<Rightarrow> Some (scale10 (digits_value 10 (ip @ fp)) (k - int (length fp)))))"

definition signed_decimal_number :: "bool \<Rightarrow> string \<Rightarrow> js_number" where
  "signed_decimal_number neg s =
     (if s = ''Infinity'' then (if neg then NegInfinity else PosInfinity)
      else (case unsigned_decimal_value s of
              None \<Rightarrow> NaN
            | Some x \<Rightarrow> Finite (if neg then - x else x)))"

definition prefixed_integer :: "nat \<Rightarrow> string \<Rightarrow> js_number" where
  "prefixed_integer base ds =
     (if ds = [] \<or> \<not> list_all (is_digit_in base) ds then NaN
      else Finite (real (digits_value base ds)))"

definition literal_to_number :: "string \<Rightarrow> js_number" where
  "literal_to_number s =
     (let t = str_trim s in
      if t = [] then Finite 0
      else if prefix ''0x'' t \<or> prefix ''0X'' t then prefixed_integer 16 (drop 2 t)
      else if prefix ''0o'' t \<or> prefix ''0O'' t then prefixed_integer 8 (drop 2 t)
      else if prefix ''0b'' t \<or> prefix ''0B'' t then prefixed_integer 2 (drop 2 t)
      else (case t of
              c # u \<Rightarrow> if c = CHR ''-'' then signed_decimal_number True u
                       else if c = CHR ''+'' then signed_decimal_number False u
                       else signed_decimal_number False t
            | [] \<Rightarrow> Finite 0))"

subsection \<open>Requests, rows and the store\<close>

record ProjectRef =
  pid :: string

record EventBase = ProjectRef +
  pg :: "string option"
  lc :: "string option"
  ref :: "string option"
  so :: "string option"
  me :: "string option"
  ca :: "string option"
  te :: "string option"
  co :: "string option"
  meta :: "(string \<times> string) list option"
  tz :: "string option"
  unique :: bool

record PageviewsDTO = EventBase +
  prev :: "string option"
  perf :: "js_object option"

record EventsDTO = EventBase +
  ev :: string

record headers =
  user_agent :: "string option"
  origin :: "string option"

record ua_result =
  device_type :: "string option"
  browser_name :: "string option"
  os_name :: "string option"

record geo_details =
  city :: "string option"
  region :: "string option"
  country :: "string option"

text \<open>
  The transformers of \<open>utils/transformers\<close> are not part of the sources. A row
  is represented by the call that builds it: the constructor carries the arguments in
  the order of the source. Such a row is an object with properties, so \<open>_isEmpty\<close> is
  false on it.
\<close>

datatype traffic_row =
  trafficTransformer string string "string option" "string option"
    string "string option" "string option"
    "string option" "string option" "string option" "string option" "string option"
    "string option" "string option"
    "string option" "string option" "string option"
    "(string \<times> string) list option" nat nat

datatype perf_row =
  performanceTransformer string "string option" string "string option"
    "string option" "string option" "string option"
    "js_value option" "js_value option" "js_value option" "js_value option"
    "js_value option" "js_value option" "js_value option" "js_value option"

datatype custom_row =
  customEventTransformer string string string "string option"
    string "string option" "string option"
    "string option" "string option" "string option" "string option" "string option"
    "string option" "string option"
    "string option" "string option" "string option"
    "(string \<times> string) list option"

datatype table_name = Analytics | Performance | CustomEV

text \<open>
  The store holds the three tables the controller appends to, and the entries written
  with \<open>logger.error\<close>.
\<close>

record store =
  analytics :: "traffic_row list"
  performance :: "perf_row list"
  customEV :: "custom_row list"
  logged :: "exn list"

text \<open>
  The collaborators of the controller (\<open>AnalyticsService\<close>, the utilities, the
  ClickHouse client) are parameters: a call that may throw yields \<open>Some\<close> exception
  or \<open>Inl\<close>; \<open>insert_error\<close> tells whether \<open>clickhouse.insert\<close> into a table
  fails. \<open>StringToNumber\<close> is the runtime's conversion of a string to a number.
\<close>

record ingest_service =
  throwIfBot :: "string \<Rightarrow> string option \<Rightarrow> exn option"
  validate :: "EventBase \<Rightarrow> string option \<Rightarrow> string option \<Rightarrow> string option \<Rightarrow> exn option"
  validateCustomEVMeta :: "(string \<times> string) list option \<Rightarrow> exn option"
  isUnique :: "string \<Rightarrow> string option \<Rightarrow> string \<Rightarrow> (bool \<times> string) outcome"
  processInteractionSD :: "string \<Rightarrow> string \<Rightarrow> exn option"
  getIPFromHeaders :: "headers \<Rightarrow> string option"
  getGeoDetails :: "string \<Rightarrow> string option \<Rightarrow> headers \<Rightarrow> geo_details"
  UAParser :: "string option \<Rightarrow> ua_result"
  StringToNumber :: "string \<Rightarrow> js_number"
  insert_error :: "table_name \<Rightarrow> exn option"

text \<open>\<open>a || b\<close> on optional strings: the empty string and \<open>undefined\<close> are falsy.\<close>

definition js_or :: "string option \<Rightarrow> string option \<Rightarrow> string option" where
  "js_or a b = (case a of None \<Rightarrow> b | Some x \<Rightarrow> if x = [] then b else Some x)"

definition or_default :: "string option \<Rightarrow> string \<Rightarrow> string" where
  "or_default a d = (case a of None \<Rightarrow> d | Some x \<Rightarrow> if x = [] then d else x)"

definition client_ip :: "ingest_service \<Rightarrow> headers \<Rightarrow> string option \<Rightarrow> string" where
  "client_ip svc hdrs reqIP = or_default (js_or (getIPFromHeaders svc hdrs) reqIP) []"

definition insert_analytics :: "ingest_service \<Rightarrow> traffic_row \<Rightarrow> store \<Rightarrow> store outcome" where
  "insert_analytics svc row st =
     (case insert_error svc Analytics of
        Some e \<Rightarrow> Inl e
      | None \<Rightarrow> Inr (st\<lparr>analytics := analytics st @ [row]\<rparr>))"

definition insert_performance :: "ingest_service \<Rightarrow> perf_row \<Rightarrow> store \<Rightarrow> store outcome" where
  "insert_performance svc row st =
     (case insert_error svc Performance of
        Some e \<Rightarrow> Inl e
      | None \<Rightarrow> Inr (st\<lparr>performance := performance st @ [row]\<rparr>))"

definition insert_customEV :: "ingest_service \<Rightarrow> custom_row \<Rightarrow> store \<Rightarrow> store outcome" where
  "insert_customEV svc row st =
     (case insert_error svc CustomEV of
        Some e \<Rightarrow> Inl e
      | None \<Rightarrow> Inr (st\<lparr>customEV := customEV st @ [row]\<rparr>))"

definition logger_error :: "exn \<Rightarrow> store \<Rightarrow> store" where
  "logger_error e st = st\<lparr>logged := logged st @ [e]\<rparr>"

subsection \<open>\<open>log\<close>\<close>

definition obj_of :: "js_object option \<Rightarrow> js_object" where
  "obj_of payload = (case payload of None \<Rightarrow> [] | Some obj \<Rightarrow> obj)"

text \<open>
  The second half of \<open>log\<close>, from \<open>getGeoDetails\<close> on: the two rows are built, then
  appended inside one \<open>try\<close>; a failing insert is logged and turned into
  \<open>InternalServerErrorException\<close>.
\<close>

definition log_save ::
  "ingest_service \<Rightarrow> PageviewsDTO \<Rightarrow> headers \<Rightarrow> string \<Rightarrow> bool \<Rightarrow> string \<Rightarrow> store
     \<Rightarrow> unit outcome \<times> store" where
  "log_save svc logDTO hdrs ip uniq psid st =
     (let geo = getGeoDetails svc ip (tz logDTO) hdrs;
          ua = UAParser svc (user_agent hdrs);
          dv = or_default (device_type ua) ''desktop'';
          br = browser_name ua;
          os = os_name ua;
          transformed =
            trafficTransformer psid (pid logDTO) (pg logDTO) (prev logDTO) dv br os
              (lc logDTO) (ref logDTO) (so logDTO) (me logDTO) (ca logDTO)
              (te logDTO) (co logDTO) (country geo) (region geo) (city geo)
              (meta logDTO) 0 (if uniq then 1 else 0);
          perfTransformed =
            (if \<not> isEmpty_obj (perf logDTO)
                \<and> isPerformanceValid (StringToNumber svc) (obj_of (perf logDTO))
             then
               let p = obj_of (perf logDTO) in
               Some (performanceTransformer (pid logDTO) (pg logDTO) dv br
                       (country geo) (region geo) (city geo)
                       (get_prop p ''dns'') (get_prop p ''tls'') (get_prop p ''conn'')
                       (get_prop p ''response'') (get_prop p ''render'')
                       (get_prop p ''dom_load'') (get_prop p ''page_load'')
                       (get_prop p ''ttfb''))
             else None)
      in case insert_analytics svc transformed st of
           Inl e \<Rightarrow> (Inl InternalServerErrorException, logger_error e st)
         | Inr st1 \<Rightarrow>
             (case perfTransformed of
                None \<Rightarrow> (Inr (), st1)
              | Some row \<Rightarrow>
                  (case insert_performance svc row st1 of
                     Inl e \<Rightarrow> (Inl InternalServerErrorException, logger_error e st1)
                   | Inr st2 \<Rightarrow> (Inr (), st2))))"

definition log ::
  "ingest_service \<Rightarrow> PageviewsDTO \<Rightarrow> headers \<Rightarrow> string option \<Rightarrow> store
     \<Rightarrow> unit outcome \<times> store" where
  "log svc logDTO hdrs reqIP st =
     (let ip = client_ip svc hdrs reqIP in
      case throwIfBot svc (pid logDTO) (user_agent hdrs) of
        Some e \<Rightarrow> (Inl e, st)
      | None \<Rightarrow>
      (case validate svc (EventBase.truncate logDTO) (origin hdrs) (Some ''log'') (Some ip) of
        Some e \<Rightarrow> (Inl e, st)
      | None \<Rightarrow>
      (case isUnique svc (pid logDTO) (user_agent hdrs) ip of
        Inl e \<Rightarrow> (Inl e, st)
      | Inr (uniq, psid) \<Rightarrow>
      (case processInteractionSD svc psid (pid logDTO) of
        Some e \<Rightarrow> (Inl e, st)
      | None \<Rightarrow>
          if uniq \<and> unique logDTO then (Inl ForbiddenException, st)
          else log_save svc logDTO hdrs ip uniq psid st))))"

subsection \<open>\<open>logCustom\<close>\<close>

definition logCustom_save ::
  "ingest_service \<Rightarrow> EventsDTO \<Rightarrow> headers \<Rightarrow> string \<Rightarrow> store \<Rightarrow> unit outcome \<times> store" where
  "logCustom_save svc eventsDTO hdrs ip st =
     (let ua = UAParser svc (user_agent hdrs);
          dv = or_default (device_type ua) ''desktop'';
          br = browser_name ua;
          os = os_name ua;
          geo = getGeoDetails svc ip (tz eventsDTO) hdrs
      in case isUnique svc (pid eventsDTO) (user_agent hdrs) ip of
           Inl e \<Rightarrow> (Inl e, st)
         | Inr (uniq, psid) \<Rightarrow>
             (let transformed =
                    customEventTransformer psid (pid eventsDTO) (ev eventsDTO) (pg eventsDTO)
                      dv br os (lc eventsDTO) (ref eventsDTO) (so eventsDTO) (me eventsDTO)
                      (ca eventsDTO) (te eventsDTO) (co eventsDTO)
                      (country geo) (region geo) (city geo) (meta eventsDTO)
              in case insert_customEV svc transformed st of
                   Inl e \<Rightarrow> (Inl InternalServerErrorException, logger_error e st)
                 | Inr st1 \<Rightarrow> (Inr (), st1)))"

definition logCustom ::
  "ingest_service \<Rightarrow> EventsDTO \<Rightarrow> headers \<Rightarrow> string option \<Rightarrow> store
     \<Rightarrow> unit outcome \<times> store" where
  "logCustom svc eventsDTO hdrs reqIP st =
     (let ip = client_ip svc hdrs reqIP in
      case validateCustomEVMeta svc (meta eventsDTO) of
        Some e \<Rightarrow> (Inl e, st)
      | None \<Rightarrow>
      (case throwIfBot svc (pid eventsDTO) (user_agent hdrs) of
        Some e \<Rightarrow> (Inl e, st)
      | None \<Rightarrow>
      (case validate svc (EventBase.truncate eventsDTO) (origin hdrs) (Some ''custom'') (Some ip) of
        Some e \<Rightarrow> (Inl e, st)
      | None \<Rightarrow>
          if unique eventsDTO
          then
            (case isUnique svc (pid eventsDTO @ ''-'' @ ev eventsDTO) (user_agent hdrs) ip of
               Inl e \<Rightarrow> (Inl e, st)
             | Inr (uniq, psid) \<Rightarrow>
                 if \<not> uniq then (Inl ForbiddenException, st)
                 else logCustom_save svc eventsDTO hdrs ip st)
          else logCustom_save svc eventsDTO hdrs ip st)))"

subsection \<open>\<open>noscript\<close>\<close>

text \<open>
  \<open>Buffer.from(text, 'base64')\<close> on a well-formed text: four characters give three
  bytes, and \<open>=\<close> pads the last group.
\<close>

definition b64_alphabet :: string where
  "b64_alphabet = ''ABCDEFGHIJKLMNOPQRSTUVWXYZabcdefghijklmnopqrstuvwxyz0123456789+/''"

definition b64_index :: "char \<Rightarrow> nat" where
  "b64_index c = (case findIndex (\<lambda>x. x = c) b64_alphabet of Some i \<Rightarrow> i | None \<Rightarrow> 0)"

fun b64_decode :: "string \<Rightarrow> 8 word list" where
  "b64_decode (a # b # c # d # rest) =
     (let n = ((b64_index a * 64 + b64_index b) * 64 + b64_index c) * 64 + b64_index d in
      if c = CHR ''='' then [of_nat (n div 65536)]
      else if d = CHR ''='' then [of_nat (n div 65536), of_nat (n div 256 mod 256)]
      else of_nat (n div 65536) # of_nat (n div 256 mod 256) # of_nat (n mod 256)
             # b64_decode rest)"
| "b64_decode rest = []"

definition TRANSPARENT_GIF_BUFFER :: "8 word list" where
  "TRANSPARENT_GIF_BUFFER =
     b64_decode ''R0lGODlhAQABAIAAAP///wAAACwAAAAAAQABAAACAkQBADs=''"

record response =
  status_code :: nat
  content_type :: string
  body :: "8 word list"

text \<open>\<open>res.writeHead(200, { 'Content-Type': 'image/gif' })\<close>, then \<open>res.end\<close> with the buffer.\<close>

definition gif_response :: response where
  "gif_response =
     \<lparr>status_code = 200, content_type = ''image/gif'', body = TRANSPARENT_GIF_BUFFER\<rparr>"

definition noscript_logDTO :: "string \<Rightarrow> PageviewsDTO" where
  "noscript_logDTO p =
     \<lparr>pid = p, pg = None, lc = None, ref = None, so = None, me = None, ca = None,
       te = None, co = None, meta = None, tz = None, unique = False,
       prev = None, perf = None\<rparr>"

definition noscript ::
  "ingest_service \<Rightarrow> string \<Rightarrow> headers \<Rightarrow> string option \<Rightarrow> store
     \<Rightarrow> response outcome \<times> store" where
  "noscript svc p hdrs reqIP st =
     (case throwIfBot svc p (user_agent hdrs) of
        Some e \<Rightarrow> (Inr gif_response, st)
      | None \<Rightarrow>
      (let logDTO = noscript_logDTO p in
       case validate svc (EventBase.truncate logDTO) (origin hdrs) None None of
         Some e \<Rightarrow> (Inl e, st)
       | None \<Rightarrow>
       (let ip = client_ip svc hdrs reqIP in
        case isUnique svc (pid logDTO) (user_agent hdrs) ip of
          Inl e \<Rightarrow> (Inl e, st)
        | Inr (uniq, psid) \<Rightarrow>
        (case processInteractionSD svc psid (pid logDTO) of
          Some e \<Rightarrow> (Inl e, st)
        | None \<Rightarrow>
          (let ua = UAParser svc (user_agent hdrs);
               dv = or_default (device_type ua) ''desktop'';
               br = browser_name ua;
               os = os_name ua;
               geo = getGeoDetails svc ip None hdrs;
               transformed =
                 trafficTransformer psid (pid logDTO) None None dv br os
                   None None None None None None None
                   (country geo) (region geo) (city geo) None 0 (if uniq then 1 else 0);
               st' = (case insert_analytics svc transformed st of
                        Inl e \<Rightarrow> logger_error e st
                      | Inr st1 \<Rightarrow> st1)
           in (Inr gif_response, st'))))))"

text \<open>
  A collaborator that lets every request through, for running the handlers on concrete
  requests: no bot, valid input, the visit reported as \<open>uniq\<close> with session
  \<open>''s1''\<close>, strings converted by \<open>literal_to_number\<close>, and the insert failing
  exactly where \<open>fails\<close> says.
\<close>

definition plain_service :: "bool \<Rightarrow> (table_name \<Rightarrow> exn option) \<Rightarrow> ingest_service" where
  "plain_service uniq fails =
     \<lparr>throwIfBot = (\<lambda>p u. None),
       validate = (\<lambda>d orig t i. None),
       validateCustomEVMeta = (\<lambda>m. None),
       isUnique = (\<lambda>p u i. Inr (uniq, ''s1'')),
       processInteractionSD = (\<lambda>s p. None),
       getIPFromHeaders = (\<lambda>h. None),
       getGeoDetails = (\<lambda>i t h. \<lparr>city = None, region = None, country = None\<rparr>),
       UAParser = (\<lambda>u. \<lparr>device_type = None, browser_name = None, os_name = None\<rparr>),
       StringToNumber = literal_to_number,
       insert_error = fails\<rparr>"

definition empty_store :: store where
  "empty_store = \<lparr>analytics = [], performance = [], customEV = [], logged = []\<rparr>"

definition plain_headers :: headers where
  "plain_headers = \<lparr>user_agent = Some ''Mozilla/5.0'', origin = None\<rparr>"

definition pageview :: "string \<Rightarrow> bool \<Rightarrow> js_object option \<Rightarrow> PageviewsDTO" where
  "pageview p u pf =
     \<lparr>pid = p, pg = Some ''/'', lc = None, ref = None, so = None, me = None, ca = None,
       te = None, co = None, meta = None, tz = None, unique = u,
       prev = None, perf = pf\<rparr>"

definition custom_event :: "string \<Rightarrow> string \<Rightarrow> bool \<Rightarrow> EventsDTO" where
  "custom_event p e u =
     \<lparr>pid = p, pg = Some ''/'', lc = None, ref = None, so = None, me = None, ca = None,
       te = None, co = None, meta = None, tz = None, unique = u, ev = e\<rparr>"

section \<open>\<open>JSON.parse\<close> and \<open>JSON.stringify\<close>\<close>

text \<open>
  \<open>getPIDsArray\<close> rests on the JSON functions of the runtime. The text is a
  \<open>string\<close>; the code units of a parsed string are natural numbers, since an escape
  \<open>\uXXXX\<close> may name any 16-bit unit. A number keeps its lexeme. \<open>JSON_parse\<close>
  is \<open>None\<close> where \<open>JSON.parse\<close> throws \<open>SyntaxError\<close>.

  The text is first cut into tokens by a machine that reads one character at a time
  (ECMA-404: whitespace, the six structural characters, strings with their escapes,
  numbers, the three literals); a second machine with a stack of open arrays and
  objects builds the value from the tokens. An object is the list of its members as
  they are written: a repeated key stays in the list, where the runtime keeps the last
  value only.
\<close>

datatype json =
    JNull
  | JBool bool
  | JNumber string
  | JString "nat list"
  | JArray "json list"
  | JObject "(nat list \<times> json) list"

datatype token =
    TLBracket | TRBracket | TLBrace | TRBrace | TComma | TColon
  | TString "nat list" | TNumber string | TTrue | TFalse | TNull

datatype num_state = NMinus | NZero | NInt | NDot | NFrac | NExp | NExpSign | NExpDigits

datatype lex_mode =
    Start
  | InStr "nat list"
  | Esc "nat list"
  | Uni "nat list" nat nat
  | Num num_state string
  | Lit string token

definition is_ws :: "char \<Rightarrow> bool" where
  "is_ws c = (c = CHR 0x20 \<or> c = CHR 0x09 \<or> c = CHR 0x0A \<or> c = CHR 0x0D)"

definition is_digit :: "char \<Rightarrow> bool" where
  "is_digit c = (c \<in> set ''0123456789'')"

definition is_digit19 :: "char \<Rightarrow> bool" where
  "is_digit19 c = (c \<in> set ''123456789'')"

definition hex_val :: "char \<Rightarrow> nat option" where
  "hex_val c =
     (case findIndex (\<lambda>x. x = c) ''0123456789abcdef'' of
        Some i \<Rightarrow> Some i
      | None \<Rightarrow> map_option (\<lambda>i. i + 10) (findIndex (\<lambda>x. x = c) ''ABCDEF''))"

fun num_step :: "num_state \<Rightarrow> char \<Rightarrow> num_state option" where
  "num_step NMinus c =
     (if c = CHR ''0'' then Some NZero else if is_digit19 c then Some NInt else None)"
| "num_step NZero c =
     (if c = CHR ''.'' then Some NDot
      else if c = CHR ''e'' \<or> c = CHR ''E'' then Some NExp else None)"
| "num_step NInt c =
     (if is_digit c then Some NInt
      else if c = CHR ''.'' then Some NDot
      else if c = CHR ''e'' \<or> c = CHR ''E'' then Some NExp else None)"
| "num_step NDot c = (if is_digit c then Some NFrac else None)"
| "num_step NFrac c =
     (if is_digit c then Some NFrac
      else if c = CHR ''e'' \<or> c = CHR ''E'' then Some NExp else None)"
| "num_step NExp c =
     (if c = CHR ''+'' \<or> c = CHR ''-'' then Some NExpSign
      else if is_digit c then Some NExpDigits else None)"
| "num_step NExpSign c = (if is_digit c then Some NExpDigits else None)"
| "num_step NExpDigits c = (if is_digit c then Some NExpDigits else None)"

fun num_final :: "num_state \<Rightarrow> bool" where
  "num_final NZero = True"
| "num_final NInt = True"
| "num_final NFrac = True"
| "num_final NExpDigits = True"
| "num_final ns = False"

type_synonym lex_state = "lex_mode \<times> token list"

text \<open>A character met between two tokens.\<close>

definition start_step :: "token list \<Rightarrow> char \<Rightarrow> lex_state option" where
  "start_step toks c =
     (if is_ws c then Some (Start, toks)
      else if c = CHR ''['' then Some (Start, toks @ [TLBracket])
      else if c = CHR '']'' then Some (Start, toks @ [TRBracket])
      else if c = CHR ''{'' then Some (Start, toks @ [TLBrace])
      else if c = CHR ''}'' then Some (Start, toks @ [TRBrace])
      else if c = CHR '','' then Some (Start, toks @ [TComma])
      else if c = CHR '':'' then Some (Start, toks @ [TColon])
      else if c = CHR 0x22 then Some (InStr [], toks)
      else if c = CHR ''-'' then Some (Num NMinus [c], toks)
      else if c = CHR ''0'' then Some (Num NZero [c], toks)
      else if is_digit19 c then Some (Num NInt [c], toks)
      else if c = CHR ''t'' then Some (Lit ''rue'' TTrue, toks)
      else if c = CHR ''f'' then Some (Lit ''alse'' TFalse, toks)
      else if c = CHR ''n'' then Some (Lit ''ull'' TNull, toks)
      else None)"

text \<open>The character after a backslash inside a string.\<close>

definition esc_step :: "nat list \<Rightarrow> token list \<Rightarrow> char \<Rightarrow> lex_state option" where
  "esc_step acc toks c =
     (if c = CHR 0x22 then Some (InStr (acc @ [0x22]), toks)
      else if c = CHR 0x5C then Some (InStr (acc @ [0x5C]), toks)
      else if c = CHR ''/'' then Some (InStr (acc @ [0x2F]), toks)
      else if c = CHR ''b'' then Some (InStr (acc @ [0x08]), toks)
      else if c = CHR ''f'' then Some (InStr (acc @ [0x0C]), toks)
      else if c = CHR ''n'' then Some (InStr (acc @ [0x0A]), toks)
      else if c = CHR ''r'' then Some (InStr (acc @ [0x0D]), toks)
      else if c = CHR ''t'' then Some (InStr (acc @ [0x09]), toks)
      else if c = CHR ''u'' then Some (Uni acc 0 0, toks)
      else None)"

fun lex_step :: "lex_state \<Rightarrow> char \<Rightarrow> lex_state option" where
  "lex_step (Start, toks) c = start_step toks c"
| "lex_step (InStr acc, toks) c =
     (if c = CHR 0x22 then Some (Start, toks @ [TString acc])
      else if c = CHR 0x5C then Some (Esc acc, toks)
      else if (of_char c :: nat) < 0x20 then None
      else Some (InStr (acc @ [of_char c]), toks))"
| "lex_step (Esc acc, toks) c = esc_step acc toks c"
| "lex_step (Uni acc k v, toks) c =
     (case hex_val c of
        None \<Rightarrow> None
      | Some d \<Rightarrow>
          if k = 3 then Some (InStr (acc @ [v * 16 + d]), toks)
          else Some (Uni acc (Suc k) (v * 16 + d), toks))"
| "lex_step (Num ns lexeme, toks) c =
     (case num_step ns c of
        Some ns' \<Rightarrow> Some (Num ns' (lexeme @ [c]), toks)
      | None \<Rightarrow> if num_final ns then start_step (toks @ [TNumber lexeme]) c else None)"
| "lex_step (Lit expected tok, toks) c =
     (case expected of
        [] \<Rightarrow> None
      | x # rest \<Rightarrow>
          if c \<noteq> x then None
          else if rest = [] then Some (Start, toks @ [tok])
          else Some (Lit rest tok, toks))"

fun lex_run :: "lex_state \<Rightarrow> string \<Rightarrow> lex_state option" where
  "lex_run st [] = Some st"
| "lex_run st (c # cs) = (case lex_step st c of None \<Rightarrow> None | Some st' \<Rightarrow> lex_run st' cs)"

text \<open>At the end of the text only a finished token or a finished number is accepted.\<close>

fun lex_finish :: "lex_state \<Rightarrow> token list option" where
  "lex_finish (Start, toks) = Some toks"
| "lex_finish (Num ns lexeme, toks) =
     (if num_final ns then Some (toks @ [TNumber lexeme]) else None)"
| "lex_finish (m, toks) = None"

definition tokenize :: "string \<Rightarrow> token list option" where
  "tokenize s = (case lex_run (Start, []) s of None \<Rightarrow> None | Some st \<Rightarrow> lex_finish st)"

datatype frame = ArrF "json list" | ObjF "(nat list \<times> json) list" "nat list"

datatype expect =
    EValue | EValueOrEnd | ECommaOrEnd | EKey | EKeyOrEnd | EColon | EDone json

type_synonym parse_state = "expect \<times> frame list"

text \<open>A finished value goes into the innermost open array or object, or is the result.\<close>

fun push_value :: "json \<Rightarrow> frame list \<Rightarrow> parse_state" where
  "push_value v [] = (EDone v, [])"
| "push_value v (ArrF xs # st) = (ECommaOrEnd, ArrF (xs @ [v]) # st)"
| "push_value v (ObjF ms k # st) = (ECommaOrEnd, ObjF (ms @ [(k, v)]) k # st)"

definition value_step :: "frame list \<Rightarrow> token \<Rightarrow> parse_state option" where
  "value_step st t =
     (case t of
        TLBracket \<Rightarrow> Some (EValueOrEnd, ArrF [] # st)
      | TLBrace \<Rightarrow> Some (EKeyOrEnd, ObjF [] [] # st)
      | TString s \<Rightarrow> Some (push_value (JString s) st)
      | TNumber n \<Rightarrow> Some (push_value (JNumber n) st)
      | TTrue \<Rightarrow> Some (push_value (JBool True) st)
      | TFalse \<Rightarrow> Some (push_value (JBool False) st)
      | TNull \<Rightarrow> Some (push_value JNull st)
      | _ \<Rightarrow> None)"

definition close_step :: "frame list \<Rightarrow> token \<Rightarrow> parse_state option" where
  "close_step st t =
     (case (st, t) of
        (ArrF xs # st', TRBracket) \<Rightarrow> Some (push_value (JArray xs) st')
      | (ObjF ms k # st', TRBrace) \<Rightarrow> Some (push_value (JObject ms) st')
      | _ \<Rightarrow> None)"

definition key_step :: "frame list \<Rightarrow> token \<Rightarrow> parse_state option" where
  "key_step st t =
     (case (st, t) of
        (ObjF ms k # st', TString s) \<Rightarrow> Some (EColon, ObjF ms s # st')
      | _ \<Rightarrow> None)"

fun parse_step :: "parse_state \<Rightarrow> token \<Rightarrow> parse_state option" where
  "parse_step (EValue, st) t = value_step st t"
| "parse_step (EValueOrEnd, st) t =
     (if t = TRBracket then close_step st t else value_step st t)"
| "parse_step (ECommaOrEnd, st) t =
     (if t = TComma
      then (case st of
              ArrF xs # st' \<Rightarrow> Some (EValue, st)
            | ObjF ms k # st' \<Rightarrow> Some (EKey, st)
            | [] \<Rightarrow> None)
      else close_step st t)"
| "parse_step (EKey, st) t = key_step st t"
| "parse_step (EKeyOrEnd, st) t =
     (if t = TRBrace then close_step st t else key_step st t)"
| "parse_step (EColon, st) t = (if t = TColon then Some (EValue, st) else None)"
| "parse_step (EDone v, st) t = None"

fun parse_run :: "parse_state \<Rightarrow> token list \<Rightarrow> parse_state option" where
  "parse_run ps [] = Some ps"
| "parse_run ps (t # ts) =
     (case parse_step ps t of None \<Rightarrow> None | Some ps' \<Rightarrow> parse_run ps' ts)"

definition JSON_parse :: "string \<Rightarrow> json option" where
  "JSON_parse s =
     (case tokenize s of
        None \<Rightarrow> None
      | Some toks \<Rightarrow>
          (case parse_run (EValue, []) toks of
             Some (EDone v, st) \<Rightarrow> Some v
           | _ \<Rightarrow> None))"

text \<open>
  \<open>JSON.stringify\<close> on an array of strings: each string is quoted
  (\<open>QuoteJSONString\<close>: two-character escapes for backspace, tab, line feed, form feed,
  carriage return, the quote and the backslash; \<open>\u00XX\<close> in lower-case hexadecimal
  for the other control characters), the elements are joined with commas.
\<close>

definition hex_digit :: "nat \<Rightarrow> char" where
  "hex_digit d = ''0123456789abcdef'' ! d"

definition quote_char :: "char \<Rightarrow> string" where
  "quote_char c =
     (if c = CHR 0x08 then [CHR 0x5C, CHR ''b'']
      else if c = CHR 0x09 then [CHR 0x5C, CHR ''t'']
      else if c = CHR 0x0A then [CHR 0x5C, CHR ''n'']
      else if c = CHR 0x0C then [CHR 0x5C, CHR ''f'']
      else if c = CHR 0x0D then [CHR 0x5C, CHR ''r'']
      else if c = CHR 0x22 then [CHR 0x5C, CHR 0x22]
      else if c = CHR 0x5C then [CHR 0x5C, CHR 0x5C]
      else if (of_char c :: nat) < 0x20
        then [CHR 0x5C, CHR ''u'', CHR ''0'', CHR ''0'',
              hex_digit (of_char c div 16), hex_digit (of_char c mod 16)]
      else [c])"

definition quote_string :: "string \<Rightarrow> string" where
  "quote_string s = [CHR 0x22] @ concat (map quote_char s) @ [CHR 0x22]"

fun join_commas :: "string list \<Rightarrow> string" where
  "join_commas [] = []"
| "join_commas [x] = x"
| "join_commas (x # y # ys) = x @ '','' @ join_commas (y # ys)"

definition JSON_stringify_strings :: "string list \<Rightarrow> string" where
  "JSON_stringify_strings xs = ''['' @ join_commas (map quote_string xs) @ '']''"

subsection \<open>\<open>getPIDsArray\<close>\<close>

text \<open>\<open>_isEmpty\<close> on an optional string: \<open>undefined\<close> and \<open>''\<close> are empty.\<close>

definition isEmpty_str :: "string option \<Rightarrow> bool" where
  "isEmpty_str v = (case v of None \<Rightarrow> True | Some x \<Rightarrow> x = [])"

definition the_str :: "string option \<Rightarrow> string" where
  "the_str v = (case v of None \<Rightarrow> [] | Some x \<Rightarrow> x)"

definition getPIDsArray :: "string option \<Rightarrow> string option \<Rightarrow> json list outcome" where
  "getPIDsArray pids p =
     (let pidsEmpty = isEmpty_str pids;
          pidEmpty = isEmpty_str p
      in if pidsEmpty \<and> pidEmpty then Inl BadRequestException
         else if \<not> pidsEmpty \<and> \<not> pidEmpty then Inl BadRequestException
         else
           let pids1 = (if \<not> pidEmpty then JSON_stringify_strings [the_str p]
                        else the_str pids)
           in case JSON_parse pids1 of
                None \<Rightarrow> Inl UnprocessableEntityException
              | Some pids2 \<Rightarrow>
                  (case pids2 of
                     JArray arr \<Rightarrow> Inr arr
                   | _ \<Rightarrow> Inl UnprocessableEntityException))"

section \<open>The analytics controller: queries\<close>

text \<open>
  The query DTOs. \<open>data.from\<close>, \<open>data.to\<close>, \<open>data.take\<close> and \<open>data.skip\<close> carry a
  prime, since the plain names are taken. Optional properties are \<open>None\<close> when absent.
\<close>

datatype DataType = ANALYTICS | PERFORMANCE

datatype ChartRenderMode = PERIODICAL | CUMULATIVE

record PeriodDto = ProjectRef +
  period :: string
  from' :: "string option"
  to' :: "string option"
  filters :: "string option"
  timezone :: "string option"

record BucketDto = PeriodDto +
  timeBucket :: "string option"

record GetDataDto = BucketDto +
  mode :: "ChartRenderMode option"
  metrics :: "string option"

record GetPerfDataDto = GetDataDto +
  measure :: "string option"

record GetCustomEventsDto = BucketDto +
  customEvents :: "string option"

record PaginatedDto = PeriodDto +
  take' :: "nat option"
  skip' :: "nat option"

record GetErrorsDto = PaginatedDto +
  options :: "string option"

text \<open>
  Constants the controller imports from modules that are not among the sources.
\<close>

record config =
  DEFAULT_TIMEZONE :: string
  MAX_METRICS_IN_VIEW :: nat
  VALID_PERIODS :: "string list"

text \<open>
  Modelled from the spec: \<open>VALID_PERIODS\<close> of \<open>decorators/validate-period.decorator\<close> is
  missing. The spec gives the fixed enum of periods as ``today, yesterday, 1d, 7d, 4w,
  3M, 12M, 24M, custom, all''; the default timezone is UTC. The cap on metrics is not
  given a value by the spec; 3 stands for it where a concrete configuration is needed.
\<close>

definition spec_config :: config where
  "spec_config =
     \<lparr>DEFAULT_TIMEZONE = ''UTC'',
       MAX_METRICS_IN_VIEW = 3,
       VALID_PERIODS = [''today'', ''yesterday'', ''1d'', ''7d'', ''4w'', ''3M'', ''12M'',
                        ''24M'', ''custom'', ''all'']\<rparr>"

record all_time =
  allowed_timeBucket :: "string list"
  diff :: nat

record filters_query =
  filtersQuery :: string
  filtersParams :: "(string \<times> string) list"
  parsedFilters :: "IFilter list"
  customEVFilterApplied :: bool

record group_range =
  groupFrom :: string
  groupTo :: string
  groupFromUTC :: string
  groupToUTC :: string

text \<open>
  The queries the controller sends to the store through \<open>AnalyticsService\<close>, each with
  the arguments that matter below: the bucket for the grouping queries, the metrics
  for \<open>getMetaResults\<close>, \<open>take\<close> and \<open>skip\<close> for the list queries. A handler returns
  its result together with the list of the store queries it has issued, in order.
\<close>

datatype store_query =
    GetTimeBucketForAllTime
  | GroupByTimeBucket "string option"
  | GroupPerfByTimeBucket "string option"
  | GroupCustomEVByTimeBucket "string option"
  | GetCustomEvents
  | GetPageProperties
  | GetMetaResults "string list"
  | GetSessionsList nat nat
  | GetErrorsList nat nat

text \<open>
  \<open>AnalyticsService\<close> as the query handlers use it. \<open>run_query\<close> gives the outcome of
  a store query; the other fields are the methods of the same name.
\<close>

record 'r query_service =
  validatePID :: "string \<Rightarrow> exn option"
  checkProjectAccess :: "string \<Rightarrow> string option \<Rightarrow> string option \<Rightarrow> exn option"
  checkIfPerfMeasureIsValid :: "string \<Rightarrow> exn option"
  parseMetrics :: "string option \<Rightarrow> string list outcome"
  getTimeBucketForAllTime :: "string \<Rightarrow> string \<Rightarrow> string \<Rightarrow> all_time outcome"
  getLowestPossibleTimeBucket :: "string \<Rightarrow> string option \<Rightarrow> string option \<Rightarrow> string"
  getFiltersQuery :: "string option \<Rightarrow> DataType \<Rightarrow> filters_query outcome"
  getSafeTimezone :: "string \<Rightarrow> string"
  getGroupFromTo ::
    "string option \<Rightarrow> string option \<Rightarrow> string option \<Rightarrow> string \<Rightarrow> string \<Rightarrow> nat option
       \<Rightarrow> group_range outcome"
  run_query :: "store_query \<Rightarrow> 'r outcome"

definition or_else :: "'a option \<Rightarrow> 'a \<Rightarrow> 'a" where
  "or_else v d = (case v of None \<Rightarrow> d | Some x \<Rightarrow> x)"

text \<open>
  \<open>_includes(res.timeBucket, timeBucket)\<close> on the array of allowed buckets (an absent
  bucket is no member), and \<open>res.timeBucket[0]\<close>, which is \<open>undefined\<close> on the empty
  array.
\<close>

definition includes_arr :: "string list \<Rightarrow> string option \<Rightarrow> bool" where
  "includes_arr arr v = (case v of None \<Rightarrow> False | Some x \<Rightarrow> x \<in> set arr)"

definition first_elem :: "'a list \<Rightarrow> 'a option" where
  "first_elem arr = (case arr of [] \<Rightarrow> None | x # xs \<Rightarrow> Some x)"

text \<open>
  The block \<open>if (period === 'all') { ... }\<close> of \<open>getData\<close>, \<open>getPerfData\<close> and
  \<open>getCustomEvents\<close> (there with the last element of \<open>VALID_PERIODS\<close> in place of
  \<open>'all'\<close>): it yields \<open>newTimebucket\<close>, \<open>diff\<close> and the allowed buckets, and issues
  one store query when it is entered.
\<close>

definition all_time_block ::
  "'r query_service \<Rightarrow> bool \<Rightarrow> string \<Rightarrow> string \<Rightarrow> string \<Rightarrow> string option
     \<Rightarrow> (string option \<times> nat option \<times> string list option) outcome \<times> store_query list" where
  "all_time_block svc is_all p per tzone tb =
     (if is_all then
        (case getTimeBucketForAllTime svc p per tzone of
           Inl e \<Rightarrow> (Inl e, [GetTimeBucketForAllTime])
         | Inr res \<Rightarrow>
             (Inr (if includes_arr (allowed_timeBucket res) tb then tb
                   else first_elem (allowed_timeBucket res),
                   Some (diff res), Some (allowed_timeBucket res)),
              [GetTimeBucketForAllTime]))
      else (Inr (tb, None, None), []))"

text \<open>
  The bucket the specification names: the requested bucket when it is a member of the allowed
  list, the first element of the allowed list otherwise (none when the list is empty).
\<close>

definition requested_or_first :: "string list \<Rightarrow> string option \<Rightarrow> string option" where
  "requested_or_first allowed requested =
     (case requested of
        Some b \<Rightarrow>
          if b \<in> set allowed then Some b
          else (case allowed of [] \<Rightarrow> None | x # xs \<Rightarrow> Some x)
      | None \<Rightarrow> (case allowed of [] \<Rightarrow> None | x # xs \<Rightarrow> Some x))"

subsection \<open>\<open>getData\<close>\<close>

record 'r getData_result =
  r_chart :: 'r
  r_customs :: 'r
  r_properties :: "'r option"
  r_appliedFilters :: "IFilter list"
  r_timeBucket :: "string list option"
  r_meta :: "'r option"

text \<open>The part of \<open>getData\<close> after the grouping query: the companion queries.\<close>

definition getData_companions ::
  "'r query_service \<Rightarrow> filters_query \<Rightarrow> string list \<Rightarrow> string list option \<Rightarrow> 'r
     \<Rightarrow> store_query list \<Rightarrow> 'r getData_result outcome \<times> store_query list" where
  "getData_companions svc fq parsedMetrics allowed result tr =
     (case run_query svc GetCustomEvents of
        Inl e \<Rightarrow> (Inl e, tr @ [GetCustomEvents])
      | Inr customs \<Rightarrow>
      (case (if \<not> customEVFilterApplied fq
             then (map_sum id Some (run_query svc GetPageProperties),
                   tr @ [GetCustomEvents, GetPageProperties])
             else (Inr None, tr @ [GetCustomEvents])) of
        (Inl e, tr1) \<Rightarrow> (Inl e, tr1)
      | (Inr properties, tr1) \<Rightarrow>
      (case (if parsedMetrics \<noteq> []
             then (map_sum id Some (run_query svc (GetMetaResults parsedMetrics)),
                   tr1 @ [GetMetaResults parsedMetrics])
             else (Inr None, tr1)) of
        (Inl e, tr2) \<Rightarrow> (Inl e, tr2)
      | (Inr meta_res, tr2) \<Rightarrow>
          (Inr \<lparr>r_chart = result, r_customs = customs, r_properties = properties,
                r_appliedFilters = parsedFilters fq, r_timeBucket = allowed,
                r_meta = meta_res\<rparr>, tr2))))"

text \<open>The part of \<open>getData\<close> from the period block to the grouping query.\<close>

definition getData_grouping ::
  "'r query_service \<Rightarrow> GetDataDto \<Rightarrow> string \<Rightarrow> string list
     \<Rightarrow> 'r getData_result outcome \<times> store_query list" where
  "getData_grouping svc data tzone parsedMetrics =
     (case all_time_block svc (period data = ''all'') (pid data) (period data) tzone
             (timeBucket data) of
        (Inl e, tr) \<Rightarrow> (Inl e, tr)
      | (Inr (newTimebucket, df, allowed), tr) \<Rightarrow>
      (case getFiltersQuery svc (filters data) ANALYTICS of
        Inl e \<Rightarrow> (Inl e, tr)
      | Inr fq \<Rightarrow>
      (let safeTimezone = getSafeTimezone svc tzone in
       case getGroupFromTo svc (from' data) (to' data) newTimebucket (period data)
              safeTimezone df of
         Inl e \<Rightarrow> (Inl e, tr)
       | Inr g \<Rightarrow>
       (case run_query svc (GroupByTimeBucket newTimebucket) of
          Inl e \<Rightarrow> (Inl e, tr @ [GroupByTimeBucket newTimebucket])
        | Inr result \<Rightarrow>
            getData_companions svc fq parsedMetrics allowed result
              (tr @ [GroupByTimeBucket newTimebucket])))))"

definition getData ::
  "config \<Rightarrow> 'r query_service \<Rightarrow> GetDataDto \<Rightarrow> string option \<Rightarrow> string option
     \<Rightarrow> 'r getData_result outcome \<times> store_query list" where
  "getData cfg svc data uid password =
     (let tzone = or_else (timezone data) (DEFAULT_TIMEZONE cfg) in
      case validatePID svc (pid data) of
        Some e \<Rightarrow> (Inl e, [])
      | None \<Rightarrow>
      (case checkProjectAccess svc (pid data) uid password of
        Some e \<Rightarrow> (Inl e, [])
      | None \<Rightarrow>
      (case parseMetrics svc (metrics data) of
        Inl e \<Rightarrow> (Inl e, [])
      | Inr parsedMetrics \<Rightarrow>
          if length parsedMetrics > MAX_METRICS_IN_VIEW cfg
          then (Inl BadRequestException, [])
          else getData_grouping svc data tzone parsedMetrics)))"

subsection \<open>\<open>getPerfData\<close>\<close>

record 'r grouped_result =
  g_chart :: 'r
  g_appliedFilters :: "IFilter list"
  g_timeBucket :: "string list option"

definition DEFAULT_MEASURE :: string where
  "DEFAULT_MEASURE = ''median''"

definition getPerfData ::
  "config \<Rightarrow> 'r query_service \<Rightarrow> GetPerfDataDto \<Rightarrow> string option \<Rightarrow> string option
     \<Rightarrow> 'r grouped_result outcome \<times> store_query list" where
  "getPerfData cfg svc data uid password =
     (let tzone = or_else (timezone data) (DEFAULT_TIMEZONE cfg);
          meas = or_else (measure data) DEFAULT_MEASURE in
      case validatePID svc (pid data) of
        Some e \<Rightarrow> (Inl e, [])
      | None \<Rightarrow>
      (case checkIfPerfMeasureIsValid svc meas of
        Some e \<Rightarrow> (Inl e, [])
      | None \<Rightarrow>
      (case checkProjectAccess svc (pid data) uid password of
        Some e \<Rightarrow> (Inl e, [])
      | None \<Rightarrow>
      (case all_time_block svc (period data = ''all'') (pid data) (period data) tzone
              (timeBucket data) of
        (Inl e, tr) \<Rightarrow> (Inl e, tr)
      | (Inr (newTimeBucket, df, allowed), tr) \<Rightarrow>
      (case getFiltersQuery svc (filters data) PERFORMANCE of
        Inl e \<Rightarrow> (Inl e, tr)
      | Inr fq \<Rightarrow>
      (let safeTimezone = getSafeTimezone svc tzone in
       case getGroupFromTo svc (from' data) (to' data) newTimeBucket (period data)
              safeTimezone df of
         Inl e \<Rightarrow> (Inl e, tr)
       | Inr g \<Rightarrow>
       (case run_query svc (GroupPerfByTimeBucket newTimeBucket) of
          Inl e \<Rightarrow> (Inl e, tr @ [GroupPerfByTimeBucket newTimeBucket])
        | Inr result \<Rightarrow>
            (Inr \<lparr>g_chart = result, g_appliedFilters = parsedFilters fq,
                  g_timeBucket = allowed\<rparr>,
             tr @ [GroupPerfByTimeBucket newTimeBucket]))))))))"

subsection \<open>\<open>getCustomEvents\<close>\<close>

text \<open>
  \<open>VALID_PERIODS[VALID_PERIODS.length - 1]\<close>: the last element, \<open>undefined\<close> on the
  empty array.
\<close>

definition last_elem :: "'a list \<Rightarrow> 'a option" where
  "last_elem arr = (if arr = [] then None else Some (last arr))"

text \<open>
  \<open>groupCustomEVByTimeBucket\<close> is missing from the sources and its result is typed
  \<open>any\<close>. The handler reads \<open>result.chart.events\<close>, enumerates the keys of that object
  and deletes some of them, so the result is taken as an object with a member \<open>chart\<close>,
  and the chart as an object with a member \<open>events\<close> that maps the name of an event to
  its series, in the order in which \<open>for ... in\<close> enumerates it. The other members of
  the chart and of the result are carried along. \<open>EmptyChart\<close> is the object \<open>{}\<close>
  that the handler may put in the chart's place; it has no \<open>events\<close>, and \<open>for ... in\<close>
  over \<open>undefined\<close> does not enter its body.
\<close>

datatype 's custom_chart =
    Chart 's "(string \<times> 's) list"
  | EmptyChart

record 's custom_grouping =
  ce_chart :: "'s custom_chart"
  ce_others :: 's

text \<open>
  The value of \<open>customEventss\<close>: the query parameter as it came (\<open>undefined\<close> when
  absent, a string otherwise), or what \<open>JSON.parse\<close> made of it.
\<close>

datatype custom_events_value =
    CEUndefined
  | CEString string
  | CEParsed json

text \<open>\<open>if (filters)\<close> on an optional string: \<open>undefined\<close> and \<open>''\<close> are falsy.\<close>

definition truthy_str :: "string option \<Rightarrow> bool" where
  "truthy_str v = (case v of None \<Rightarrow> False | Some s \<Rightarrow> s \<noteq> [])"

text \<open>
  Lines 1377 to 1384: \<open>customEventss\<close> starts as the parameter and, when \<open>filters\<close> is
  truthy, becomes the parsed parameter, unless \<open>JSON.parse\<close> throws; the exception is
  caught and dropped. \<open>JSON.parse\<close> converts its argument to a string first, so the
  absent parameter is parsed as the text \<open>undefined\<close>, which is no JSON text.
\<close>

definition parsed_customEvents :: "string option \<Rightarrow> string option \<Rightarrow> custom_events_value" where
  "parsed_customEvents flt ce =
     (let customEventss = (case ce of None \<Rightarrow> CEUndefined | Some s \<Rightarrow> CEString s)
      in if truthy_str flt
         then (case JSON_parse (case ce of None \<Rightarrow> ''undefined'' | Some s \<Rightarrow> s) of
                 None \<Rightarrow> customEventss
               | Some v \<Rightarrow> CEParsed v)
         else customEventss)"

text \<open>
  \<open>customEventss.length > 0\<close>. Reading a property of \<open>undefined\<close> or \<open>null\<close> throws
  \<open>TypeError\<close>. A string and an array have their length; a number and a boolean have
  no \<open>length\<close>, and \<open>undefined > 0\<close> is false. A parsed object has the \<open>length\<close> that
  the text gave it, if any (the last one, when the key is repeated); that value may be
  any parsed value, and its comparison with \<open>0\<close> is left to the runtime, \<open>gt_zero\<close>.
\<close>

fun length_gt_zero :: "(json \<Rightarrow> bool outcome) \<Rightarrow> custom_events_value \<Rightarrow> bool outcome" where
  "length_gt_zero gt_zero CEUndefined = Inl TypeError"
| "length_gt_zero gt_zero (CEString s) = Inr (length s > 0)"
| "length_gt_zero gt_zero (CEParsed JNull) = Inl TypeError"
| "length_gt_zero gt_zero (CEParsed (JBool b)) = Inr False"
| "length_gt_zero gt_zero (CEParsed (JNumber n)) = Inr False"
| "length_gt_zero gt_zero (CEParsed (JString u)) = Inr (length u > 0)"
| "length_gt_zero gt_zero (CEParsed (JArray a)) = Inr (length a > 0)"
| "length_gt_zero gt_zero (CEParsed (JObject m)) =
     (case map_of (rev m) (map of_char ''length'') of
        None \<Rightarrow> Inr False
      | Some v \<Rightarrow> gt_zero v)"

text \<open>
  \<open>customEventss.includes(key)\<close> for the name of an event. On a string it looks for
  the name as a substring, on an array for an element that is the name. A parsed object
  has no method \<open>includes\<close> (a member of that name is no function), so the call throws
  \<open>TypeError\<close>; the other values do not get here, and have no such method either.
\<close>

fun includes_units :: "nat list \<Rightarrow> nat list \<Rightarrow> bool" where
  "includes_units [] pat = (pat = [])"
| "includes_units (c # cs) pat = (prefix pat (c # cs) \<or> includes_units cs pat)"

fun includes_key :: "custom_events_value \<Rightarrow> string \<Rightarrow> bool outcome" where
  "includes_key (CEString s) key = Inr (includes_str s key)"
| "includes_key (CEParsed (JString u)) key = Inr (includes_units u (map of_char key))"
| "includes_key (CEParsed (JArray a)) key = Inr (JString (map of_char key) \<in> set a)"
| "includes_key v key = Inl TypeError"

text \<open>
  The loop \<open>for (const key in result.chart.events)\<close>: an event whose name
  \<open>customEventss\<close> does not include is deleted.
\<close>

fun prune_events ::
  "custom_events_value \<Rightarrow> (string \<times> 's) list \<Rightarrow> (string \<times> 's) list outcome" where
  "prune_events v [] = Inr []"
| "prune_events v ((key, series) # rest) =
     (case includes_key v key of
        Inl e \<Rightarrow> Inl e
      | Inr keep \<Rightarrow>
          (case prune_events v rest of
             Inl e \<Rightarrow> Inl e
           | Inr rest' \<Rightarrow> Inr (if keep then (key, series) # rest' else rest')))"

text \<open>Lines 1386 to 1394: the events are pruned, or the chart is replaced by \<open>{}\<close>.\<close>

definition prune_chart ::
  "(json \<Rightarrow> bool outcome) \<Rightarrow> custom_events_value \<Rightarrow> 's custom_grouping
     \<Rightarrow> 's custom_grouping outcome" where
  "prune_chart gt_zero customEventss result =
     (case length_gt_zero gt_zero customEventss of
        Inl e \<Rightarrow> Inl e
      | Inr True \<Rightarrow>
          (case ce_chart result of
             EmptyChart \<Rightarrow> Inr result
           | Chart others evs \<Rightarrow>
               (case prune_events customEventss evs of
                  Inl e \<Rightarrow> Inl e
                | Inr evs' \<Rightarrow> Inr (result\<lparr>ce_chart := Chart others evs'\<rparr>)))
      | Inr False \<Rightarrow> Inr (result\<lparr>ce_chart := EmptyChart\<rparr>))"

text \<open>
  \<open>getCustomEvents\<close>. \<open>gt_zero\<close> is the runtime's comparison \<open>v > 0\<close> for a parsed
  value \<open>v\<close>. The result spreads the pruned grouping and adds the applied filters and
  the allowed buckets.
\<close>

definition getCustomEvents ::
  "(json \<Rightarrow> bool outcome) \<Rightarrow> config \<Rightarrow> 's custom_grouping query_service
     \<Rightarrow> GetCustomEventsDto \<Rightarrow> string option \<Rightarrow> string option
     \<Rightarrow> 's custom_grouping grouped_result outcome \<times> store_query list" where
  "getCustomEvents gt_zero cfg svc data uid password =
     (let tzone = or_else (timezone data) (DEFAULT_TIMEZONE cfg) in
      case validatePID svc (pid data) of
        Some e \<Rightarrow> (Inl e, [])
      | None \<Rightarrow>
      (case checkProjectAccess svc (pid data) uid password of
        Some e \<Rightarrow> (Inl e, [])
      | None \<Rightarrow>
      (case all_time_block svc (Some (period data) = last_elem (VALID_PERIODS cfg))
              (pid data) (period data) tzone (timeBucket data) of
        (Inl e, tr) \<Rightarrow> (Inl e, tr)
      | (Inr (newTimeBucket, df, timeBucketForAllTime), tr) \<Rightarrow>
      (case getFiltersQuery svc (filters data) ANALYTICS of
        Inl e \<Rightarrow> (Inl e, tr)
      | Inr fq \<Rightarrow>
      (let safeTimezone = getSafeTimezone svc tzone in
       case getGroupFromTo svc (from' data) (to' data) newTimeBucket (period data)
              safeTimezone df of
         Inl e \<Rightarrow> (Inl e, tr)
       | Inr g \<Rightarrow>
       (case run_query svc (GroupCustomEVByTimeBucket newTimeBucket) of
          Inl e \<Rightarrow> (Inl e, tr @ [GroupCustomEVByTimeBucket newTimeBucket])
        | Inr result \<Rightarrow>
            (let customEventss = parsed_customEvents (filters data) (customEvents data) in
             case prune_chart gt_zero customEventss result of
               Inl e \<Rightarrow> (Inl e, tr @ [GroupCustomEVByTimeBucket newTimeBucket])
             | Inr pruned \<Rightarrow>
                 (Inr \<lparr>g_chart = pruned, g_appliedFilters = parsedFilters fq,
                       g_timeBucket = timeBucketForAllTime\<rparr>,
                  tr @ [GroupCustomEVByTimeBucket newTimeBucket]))))))))"

subsection \<open>\<open>getSessions\<close> and \<open>getErrors\<close>\<close>

text \<open>
  Modelled from the spec: \<open>AnalyticsService.getSafeNumber\<close> is missing from the
  sources. The spec gives the list endpoints ``pagination parameters \<open>take\<close> (capped at
  150) and \<open>skip\<close> (non-negative integer, default 0)'': a parameter that is present is
  a non-negative integer and is taken as it is, an absent one takes the default the
  caller passes.
\<close>

definition getSafeNumber :: "nat option \<Rightarrow> nat \<Rightarrow> nat" where
  "getSafeNumber v defaultValue = (case v of None \<Rightarrow> defaultValue | Some n \<Rightarrow> n)"

record 'r list_result =
  l_items :: 'r
  l_appliedFilters :: "IFilter list"
  l_take :: nat
  l_skip :: nat

text \<open>
  The block that fixes the bucket of a list endpoint: the first allowed bucket for
  period \<open>'all'\<close>, the lowest possible one otherwise.
\<close>

definition list_bucket_block ::
  "'r query_service \<Rightarrow> string \<Rightarrow> string \<Rightarrow> string \<Rightarrow> string option \<Rightarrow> string option
     \<Rightarrow> (string option \<times> nat option) outcome \<times> store_query list" where
  "list_bucket_block svc p per tzone frm til =
     (if per = ''all'' then
        (case getTimeBucketForAllTime svc p per tzone of
           Inl e \<Rightarrow> (Inl e, [GetTimeBucketForAllTime])
         | Inr res \<Rightarrow>
             (Inr (first_elem (allowed_timeBucket res), Some (diff res)),
              [GetTimeBucketForAllTime]))
      else (Inr (Some (getLowestPossibleTimeBucket svc per frm til), None), []))"

text \<open>
  The common body of the two list handlers after the check of \<open>take\<close>;
  \<open>list_query\<close> is \<open>getSessionsList\<close> or \<open>getErrorsList\<close>.
\<close>

definition list_body ::
  "'r query_service \<Rightarrow> 'a PeriodDto_scheme \<Rightarrow> string \<Rightarrow> store_query \<Rightarrow> nat \<Rightarrow> nat
     \<Rightarrow> 'r list_result outcome \<times> store_query list" where
  "list_body svc data tzone list_query tk sk =
     (case list_bucket_block svc (pid data) (period data) tzone (from' data) (to' data) of
        (Inl e, tr) \<Rightarrow> (Inl e, tr)
      | (Inr (tb, df), tr) \<Rightarrow>
      (case getFiltersQuery svc (filters data) ANALYTICS of
        Inl e \<Rightarrow> (Inl e, tr)
      | Inr fq \<Rightarrow>
      (let safeTimezone = getSafeTimezone svc tzone in
       case getGroupFromTo svc (from' data) (to' data) tb (period data) safeTimezone df of
         Inl e \<Rightarrow> (Inl e, tr)
       | Inr g \<Rightarrow>
       (case run_query svc list_query of
          Inl e \<Rightarrow> (Inl e, tr @ [list_query])
        | Inr items \<Rightarrow>
            (Inr \<lparr>l_items = items, l_appliedFilters = parsedFilters fq,
                  l_take = tk, l_skip = sk\<rparr>,
             tr @ [list_query])))))"

text \<open>
  The collaborators behind a list handler answer without throwing: the all-time lookup
  (when the period is \<open>'all'\<close>), \<open>getFiltersQuery\<close>, \<open>getGroupFromTo\<close> and the list
  query itself.
\<close>

definition list_collaborators_pass ::
  "'r query_service \<Rightarrow> 'a PeriodDto_scheme \<Rightarrow> string \<Rightarrow> store_query \<Rightarrow> bool" where
  "list_collaborators_pass svc data tzone list_query =
     ((period data = ''all'' \<longrightarrow>
         (\<exists>res. getTimeBucketForAllTime svc (pid data) (period data) tzone = Inr res))
      \<and> (\<exists>fq. getFiltersQuery svc (filters data) ANALYTICS = Inr fq)
      \<and> (\<forall>b d. \<exists>g. getGroupFromTo svc (from' data) (to' data) b (period data)
                        (getSafeTimezone svc tzone) d = Inr g)
      \<and> (\<exists>items. run_query svc list_query = Inr items))"

definition getSessions ::
  "config \<Rightarrow> 'r query_service \<Rightarrow> PaginatedDto \<Rightarrow> string option \<Rightarrow> string option
     \<Rightarrow> 'r list_result outcome \<times> store_query list" where
  "getSessions cfg svc data uid password =
     (let tzone = or_else (timezone data) (DEFAULT_TIMEZONE cfg) in
      case validatePID svc (pid data) of
        Some e \<Rightarrow> (Inl e, [])
      | None \<Rightarrow>
      (case checkProjectAccess svc (pid data) uid password of
        Some e \<Rightarrow> (Inl e, [])
      | None \<Rightarrow>
      (let tk = getSafeNumber (take' data) 30;
           sk = getSafeNumber (skip' data) 0
       in if tk > 150 then (Inl BadRequestException, [])
          else list_body svc data tzone (GetSessionsList tk sk) tk sk)))"

definition getErrors ::
  "config \<Rightarrow> 'r query_service \<Rightarrow> GetErrorsDto \<Rightarrow> string option \<Rightarrow> string option
     \<Rightarrow> 'r list_result outcome \<times> store_query list" where
  "getErrors cfg svc data uid password =
     (let tzone = or_else (timezone data) (DEFAULT_TIMEZONE cfg) in
      case validatePID svc (pid data) of
        Some e \<Rightarrow> (Inl e, [])
      | None \<Rightarrow>
      (case checkProjectAccess svc (pid data) uid password of
        Some e \<Rightarrow> (Inl e, [])
      | None \<Rightarrow>
      (let tk = getSafeNumber (take' data) 30;
           sk = getSafeNumber (skip' data) 0
       in if tk > 150 then (Inl BadRequestException, [])
          else list_body svc data tzone (GetErrorsList tk sk) tk sk)))"

text \<open>
  A query service that lets every request through: every store query answers \<open>0\<close>,
  the all-time lookup allows the buckets \<open>day\<close>, \<open>week\<close>, \<open>month\<close>, and
  \<open>parseMetrics\<close> yields \<open>ms\<close>.
\<close>

definition plain_query_service :: "string list \<Rightarrow> nat query_service" where
  "plain_query_service ms =
     \<lparr>validatePID = (\<lambda>p. None),
       checkProjectAccess = (\<lambda>p u w. None),
       checkIfPerfMeasureIsValid = (\<lambda>m. None),
       parseMetrics = (\<lambda>m. Inr ms),
       getTimeBucketForAllTime =
         (\<lambda>p per z. Inr \<lparr>allowed_timeBucket = [''day'', ''week'', ''month''], diff = 40\<rparr>),
       getLowestPossibleTimeBucket = (\<lambda>per f t. ''hour''),
       getFiltersQuery =
         (\<lambda>f d. Inr \<lparr>filtersQuery = [], filtersParams = [], parsedFilters = [],
                       customEVFilterApplied = False\<rparr>),
       getSafeTimezone = (\<lambda>z. z),
       getGroupFromTo =
         (\<lambda>f t b per z d. Inr \<lparr>groupFrom = [], groupTo = [], groupFromUTC = [],
                                 groupToUTC = []\<rparr>),
       run_query = (\<lambda>q. Inr 0)\<rparr>"

definition list_request :: "nat option \<Rightarrow> nat option \<Rightarrow> PaginatedDto" where
  "list_request tk sk =
     \<lparr>pid = ''abcdefghijkl'', period = ''7d'', from' = None, to' = None, filters = None,
       timezone = None, take' = tk, skip' = sk\<rparr>"

definition errors_request :: "nat option \<Rightarrow> nat option \<Rightarrow> GetErrorsDto" where
  "errors_request tk sk =
     \<lparr>pid = ''abcdefghijkl'', period = ''7d'', from' = None, to' = None, filters = None,
       timezone = None, take' = tk, skip' = sk, options = None\<rparr>"

definition data_request :: "string \<Rightarrow> string option \<Rightarrow> GetDataDto" where
  "data_request per tb =
     \<lparr>pid = ''abcdefghijkl'', period = per, from' = None, to' = None, filters = None,
       timezone = None, timeBucket = tb, mode = None, metrics = None\<rparr>"

definition perf_request :: "string \<Rightarrow> string option \<Rightarrow> GetPerfDataDto" where
  "perf_request per tb =
     \<lparr>pid = ''abcdefghijkl'', period = per, from' = None, to' = None, filters = None,
       timezone = None, timeBucket = tb, mode = None, metrics = None, measure = None\<rparr>"

definition custom_events_request ::
  "string \<Rightarrow> string option \<Rightarrow> string option \<Rightarrow> string option \<Rightarrow> GetCustomEventsDto" where
  "custom_events_request per tb flt ce =
     \<lparr>pid = ''abcdefghijkl'', period = per, from' = None, to' = None, filters = flt,
       timezone = None, timeBucket = tb, customEvents = ce\<rparr>"

text \<open>
  The same query service for \<open>getCustomEvents\<close>: the grouping answers with a chart of
  two events, \<open>signup\<close> and \<open>purchase\<close>.
\<close>

definition signup_purchase :: "nat list custom_grouping" where
  "signup_purchase =
     \<lparr>ce_chart = Chart [1, 2] [(''signup'', [3, 0]), (''purchase'', [0, 1])],
       ce_others = []\<rparr>"

definition custom_events_service :: "nat list custom_grouping query_service" where
  "custom_events_service =
     \<lparr>validatePID = (\<lambda>p. None),
       checkProjectAccess = (\<lambda>p u w. None),
       checkIfPerfMeasureIsValid = (\<lambda>m. None),
       parseMetrics = (\<lambda>m. Inr []),
       getTimeBucketForAllTime =
         (\<lambda>p per z. Inr \<lparr>allowed_timeBucket = [''day'', ''week'', ''month''], diff = 40\<rparr>),
       getLowestPossibleTimeBucket = (\<lambda>per f t. ''hour''),
       getFiltersQuery =
         (\<lambda>f d. Inr \<lparr>filtersQuery = [], filtersParams = [], parsedFilters = [],
                       customEVFilterApplied = False\<rparr>),
       getSafeTimezone = (\<lambda>z. z),
       getGroupFromTo =
         (\<lambda>f t b per z d. Inr \<lparr>groupFrom = [], groupTo = [], groupFromUTC = [],
                                 groupToUTC = []\<rparr>),
       run_query = (\<lambda>q. Inr signup_purchase)\<rparr>"

section \<open>Visitor identity\<close>

text \<open>
  Modelled from the spec: \<open>AnalyticsService.isUnique\<close> is missing from the sources;
  the controller only calls it. The spec (4.3) has it compute a salted hash over
  (ip, userAgent, projectId), check a presence marker for that hash, and set or
  refresh the marker with the rotation window as its expiry: ``If no marker existed,
  the visit is unique and a new session id is minted; otherwise the existing session
  id is returned unmodified.'' The salt rotates (3, 9): it ``changes on a fixed
  schedule'', and ``rotation is a pure function of wall-clock time and a fixed window
  length''.

  The clock counts seconds. The rotation period of a time is the number of whole
  windows that have passed, and the salt is the configuration's salt of that period,
  so two calls in different periods hash with different salts. The marker store maps
  a hash to the session id and the time its marker expires; a marker past its expiry
  does not exist any more. Session ids are minted from a counter. The hash function,
  the salts and the window are configuration.
\<close>

record 'k identity_config =
  salted_hash :: "string \<Rightarrow> string \<Rightarrow> string \<Rightarrow> string \<Rightarrow> 'k"
  rotation_salt :: "nat \<Rightarrow> string"
  rotation_window :: nat

record 'k identity_state =
  markers :: "'k \<Rightarrow> (nat \<times> nat) option"
  next_session_id :: nat

definition rotation_period :: "'k identity_config \<Rightarrow> nat \<Rightarrow> nat" where
  "rotation_period cfg now = now div rotation_window cfg"

definition visitor_hash :: "'k identity_config \<Rightarrow> nat \<Rightarrow> string \<Rightarrow> string \<Rightarrow> string \<Rightarrow> 'k" where
  "visitor_hash cfg now projectId userAgent ip =
     salted_hash cfg (rotation_salt cfg (rotation_period cfg now)) ip userAgent projectId"

definition live_marker :: "nat \<Rightarrow> (nat \<times> nat) option \<Rightarrow> nat option" where
  "live_marker now m =
     (case m of
        None \<Rightarrow> None
      | Some (sid, expiry) \<Rightarrow> if now < expiry then Some sid else None)"

definition AnalyticsService_isUnique ::
  "'k identity_config \<Rightarrow> nat \<Rightarrow> string \<Rightarrow> string \<Rightarrow> string \<Rightarrow> 'k identity_state
     \<Rightarrow> (bool \<times> nat) \<times> 'k identity_state" where
  "AnalyticsService_isUnique cfg now projectId userAgent ip st =
     (let h = visitor_hash cfg now projectId userAgent ip in
      case live_marker now (markers st h) of
        None \<Rightarrow>
          ((True, next_session_id st),
           st\<lparr>markers := (markers st)(h \<mapsto> (next_session_id st, now + rotation_window cfg)),
              next_session_id := Suc (next_session_id st)\<rparr>)
      | Some sid \<Rightarrow>
          ((False, sid),
           st\<lparr>markers := (markers st)(h \<mapsto> (sid, now + rotation_window cfg))\<rparr>))"

text \<open>
  A configuration with a 24 hour window whose hash keeps its inputs and whose salt
  names its rotation period, and the empty marker store.
\<close>

definition day_config :: "(string \<times> string \<times> string \<times> string) identity_config" where
  "day_config =
     \<lparr>salted_hash = (\<lambda>salt ip ua p. (salt, ip, ua, p)),
       rotation_salt = (\<lambda>n. ''salt-'' @ replicate n (CHR ''+'')),
       rotation_window = 86400\<rparr>"

definition no_markers :: "(string \<times> string \<times> string \<times> string) identity_state" where
  "no_markers = \<lparr>markers = Map.empty, next_session_id = 0\<rparr>"

section \<open>Theorems: the query-string filters\<close>

lemma parse_forEach_acc:
  "parse_forEach keySuffix sp acc = acc @ parse_forEach keySuffix sp []"
proof (induction sp arbitrary: acc)
  case Nil
  show ?case by simp
next
  case (Cons kv sp)
  obtain k v where kv: "kv = (k, v)" by (cases kv)
  show ?case
    unfolding kv
    using Cons.IH[of "acc @ [x]" for x] Cons.IH[of "[x]" for x] Cons.IH[of acc]
    by (simp add: Let_def)
qed

lemma parse_map_filter:
  "parseFiltersFromUrl keySuffix sp =
     map (entry_of keySuffix)
       (filter (\<lambda>kv. includes_str (fst kv) keySuffix
                  \<and> js_replace (fst kv) keySuffix [] \<in> set validFilters) sp)"
  unfolding parseFiltersFromUrl_def
proof (induction sp)
  case Nil
  show ?case by simp
next
  case (Cons kv sp)
  obtain k v where kv: "kv = (k, v)" by (cases kv)
  show ?case
    unfolding kv
    using Cons.IH parse_forEach_acc[of keySuffix sp "[x]" for x]
    by (simp add: Let_def isFilterValid_def entry_of_def)
qed

lemma dynamic_not_static:
  "c \<in> set validFilters \<Longrightarrow> \<not> list_ex (\<lambda>pre. startsWith c pre) validDynamicFilters"
  by (auto simp: validFilters_def validDynamicFilters_def startsWith_def)

lemma js_replace_suffix:
  "sfx = [] \<or> hd sfx \<notin> set col \<Longrightarrow> js_replace (col @ sfx) sfx [] = col"
proof (induction col)
  case Nil
  then show ?case by (cases sfx) auto
next
  case (Cons c cs)
  show ?case
  proof (cases sfx)
    case Nil
    then show ?thesis by simp
  next
    case (Cons a as)
    with Cons.prems Cons.IH show ?thesis by auto
  qed
qed

lemma includes_suffix: "includes_str (col @ sfx) sfx"
  unfolding includes_str_def
proof (induction col)
  case Nil
  show ?case by (cases sfx) auto
next
  case (Cons c cs)
  then show ?case by auto
qed

lemma sp_delete_absent: "\<not> sp_has sp k \<Longrightarrow> sp_delete sp k = sp"
  unfolding sp_has_def sp_delete_def by (induction sp) auto

lemma applyFilters_forEach_plain:
  assumes "\<forall>i\<in>set items. \<exists>v. filter_value i = FStr v \<and> v \<noteq> []"
    and "distinct (map column items)"
    and "\<forall>i\<in>set items. \<not> sp_has sp (column i @ sfx)"
  shows "applyFilters_forEach items sfx ov (sp, acc) =
           (sp @ map (\<lambda>i. (column i @ sfx, hd (as_array (filter_value i)))) items,
            acc @ items)"
  using assms
proof (induction items arbitrary: sp acc)
  case Nil
  show ?case by simp
next
  case (Cons item items)
  from Cons.prems(1) obtain v where v: "filter_value item = FStr v" "v \<noteq> []" by auto
  let ?k = "column item @ sfx"
  have absent: "\<not> sp_has sp ?k" using Cons.prems(3) by simp
  have step: "applyFilters_forEach (item # items) sfx ov (sp, acc) =
                applyFilters_forEach items sfx ov (sp @ [(?k, v)], acc @ [item])"
    using v absent by (simp add: Let_def sp_delete_absent sp_append_def)
  have rest: "\<forall>i\<in>set items. \<not> sp_has (sp @ [(?k, v)]) (column i @ sfx)"
  proof
    fix i assume i: "i \<in> set items"
    then have "column i \<in> column ` set items" by simp
    then have "column i \<noteq> column item" using Cons.prems(2) by auto
    moreover have "\<not> sp_has sp (column i @ sfx)" using Cons.prems(3) i by simp
    ultimately show "\<not> sp_has (sp @ [(?k, v)]) (column i @ sfx)"
      by (simp add: sp_has_def)
  qed
  have "applyFilters_forEach items sfx ov (sp @ [(?k, v)], acc @ [item]) =
          ((sp @ [(?k, v)]) @ map (\<lambda>i. (column i @ sfx, hd (as_array (filter_value i)))) items,
           (acc @ [item]) @ items)"
    using Cons.IH[of "sp @ [(?k, v)]" "acc @ [item]"] Cons.prems(1,2) rest by simp
  with step v show ?case by simp
qed

lemma applyFilters_empty:
  assumes "\<forall>i\<in>set items. \<exists>v. filter_value i = FStr v \<and> v \<noteq> []"
    and "distinct (map column items)"
  shows "applyFilters items sfx [] ov =
           (map (\<lambda>i. (column i @ sfx, hd (as_array (filter_value i)))) items, items)"
  unfolding applyFilters_def
  using applyFilters_forEach_plain[of items "[]" sfx ov "[]"] assms
  by (auto simp: sp_has_def)

text \<open>
  C3 (amended). For every input of \<open>parseFiltersFromUrl\<close>, a pair of the query string
  is retained in the applied set if and only if its key contains the key suffix and
  its column (the key with the first occurrence of the suffix removed) is in the fixed
  allow-list. \<open>isFilterValid\<close> is called without \<open>checkDynamicFilters\<close>, so a column that
  only matches a dynamic prefix (\<open>ev:key:\<close> or \<open>tag:key:\<close>) is dropped like any other
  unknown column: no retained column starts with a dynamic prefix.
\<close>

theorem parseFiltersFromUrl_allow_list_only:
  "parseFiltersFromUrl keySuffix searchParams =
     map (entry_of keySuffix)
       (filter (\<lambda>kv. includes_str (fst kv) keySuffix
                  \<and> js_replace (fst kv) keySuffix [] \<in> set validFilters) searchParams)
   \<and> (\<forall>f\<in>set (parseFiltersFromUrl keySuffix searchParams).
         column f \<in> set validFilters
         \<and> \<not> list_ex (\<lambda>pre. startsWith (column f) pre) validDynamicFilters)"
proof -
  have "column f \<in> set validFilters"
    if "f \<in> set (parseFiltersFromUrl keySuffix searchParams)" for f
    using that unfolding parse_map_filter by (auto simp: entry_of_def)
  then show ?thesis
    using parse_map_filter[of keySuffix searchParams] dynamic_not_static by blast
qed

theorem parseFiltersFromUrl_allow_list_only_witness:
  "parseFiltersFromUrl ''_perf''
     [(''cc_perf'', ''!US''), (''ev:key:plan_perf'', ''pro''), (''br'', ''Chrome'')]
   = [\<lparr>column = ''cc'', filter_value = FStr ''US'', isExclusive = True\<rparr>]"
  using parseFiltersFromUrl_allow_list_only
    [of "''_perf''" "[(''cc_perf'', ''!US''), (''ev:key:plan_perf'', ''pro''), (''br'', ''Chrome'')]"]
  by (simp add: entry_of_def includes_str_def validFilters_def startsWith_def substring_def)

theorem parseFiltersFromUrl_dynamic_counterexample:
  "isFilterValid ''ev:key:plan'' True
   \<and> parseFiltersFromUrl [] [(''ev:key:plan'', ''pro'')] = []"
  by (simp add: isFilterValid_def parseFiltersFromUrl_def validFilters_def
      validDynamicFilters_def startsWith_def includes_str_def)

lemma findIndex_None: "(\<forall>x\<in>set xs. \<not> P x) \<Longrightarrow> findIndex P xs = None"
  by (induction xs) auto

lemma encode_as_specified_single:
  assumes "\<forall>i\<in>set items. \<exists>v. filter_value i = FStr v"
  shows "encode_as_specified sfx items =
           map (\<lambda>i. (column i @ sfx,
                       if isExclusive i then ''!'' @ hd (as_array (filter_value i))
                       else hd (as_array (filter_value i)))) items"
  using assms unfolding encode_as_specified_def
  by (induction items) auto

lemma foldl_sp_append:
  "set (foldl (\<lambda>sp flt. sp_append sp k flt) sp0 fs) = set sp0 \<union> (\<lambda>v. (k, v)) ` set fs"
  by (induction fs arbitrary: sp0) (auto simp: sp_append_def)

lemma applyFilters_forEach_pairs:
  "set (fst (applyFilters_forEach items sfx ov (sp, acc)))
     \<subseteq> set sp \<union> (\<Union>i\<in>set items. (\<lambda>v. (column i @ sfx, v)) ` set (as_array (filter_value i)))"
proof (induction items arbitrary: sp acc)
  case Nil
  show ?case by simp
next
  case (Cons item items)
  let ?new = "\<lambda>its. (\<Union>i\<in>set its. (\<lambda>v. (column i @ sfx, v)) ` set (as_array (filter_value i)))"
  let ?k = "column item @ sfx"
  let ?sp' = "if ov \<or> \<not> sp_has sp ?k
              then foldl (\<lambda>sp flt. sp_append sp ?k flt) (sp_delete sp ?k)
                     (as_array (filter_value item))
              else sp"
  have sub: "set ?sp' \<subseteq> set sp \<union> (\<lambda>v. (?k, v)) ` set (as_array (filter_value item))"
    by (auto simp: foldl_sp_append sp_delete_def)
  have new: "?new (item # items)
               = (\<lambda>v. (?k, v)) ` set (as_array (filter_value item)) \<union> ?new items"
    by simp
  show ?case
  proof (cases "falsy (filter_value item) \<or> length (as_array (filter_value item)) = 0")
    case True
    then have eq: "applyFilters_forEach (item # items) sfx ov (sp, acc)
                     = applyFilters_forEach items sfx ov (sp, acc)"
      by (auto simp: Let_def)
    have "set (fst (applyFilters_forEach items sfx ov (sp, acc))) \<subseteq> set sp \<union> ?new items"
      by (rule Cons.IH)
    then show ?thesis unfolding eq new by blast
  next
    case False
    then have eq: "applyFilters_forEach (item # items) sfx ov (sp, acc)
                     = applyFilters_forEach items sfx ov (?sp', acc @ [item])"
      by (simp add: Let_def)
    have "set (fst (applyFilters_forEach items sfx ov (?sp', acc @ [item])))
            \<subseteq> set ?sp' \<union> ?new items"
      by (rule Cons.IH)
    then show ?thesis unfolding eq new using sub by blast
  qed
qed

lemma applyFilters_pairs:
  "set (fst (applyFilters items sfx sp ov))
     \<subseteq> set sp \<union> {(column i @ sfx, v) | i v.
                       i \<in> set items \<and> v \<in> set (as_array (filter_value i))}"
proof -
  have "(\<Union>i\<in>set items. (\<lambda>v. (column i @ sfx, v)) ` set (as_array (filter_value i)))
          = {(column i @ sfx, v) | i v. i \<in> set items \<and> v \<in> set (as_array (filter_value i))}"
    by blast
  then show ?thesis
    using applyFilters_forEach_pairs[of items sfx ov sp "[]"] unfolding applyFilters_def by simp
qed

text \<open>
  C9 (amended). Parsing gives, for every retained pair, \<open>isExclusive\<close> true exactly
  when the raw value starts with \<open>!\<close>, and the stored value is the raw value without
  that prefix. Encoding a set of single-valued filters as the specification describes
  (every value under the key \<open>column + suffix\<close>, a leading \<open>!\<close> for an exclusive
  filter) and parsing it back yields the original set when every column is in the
  allow-list, no non-exclusive value starts with \<open>!\<close>, and the suffix is empty or
  begins with a character that does not occur in the column. \<open>applyFilters\<close> and
  \<open>updateFilterState\<close> write the value unchanged and never add \<open>!\<close>: every pair in
  the query string after \<open>applyFilters\<close> was there before or is a value of one of the
  items under that item's key, and \<open>updateFilterState\<close> appends a value that is not
  yet among the filters as it is. With \<open>applyFilters\<close> into an empty query string the
  round trip holds for such a set when, in addition, every filter is non-exclusive,
  every value is non-empty and every column occurs once.
\<close>

theorem applyFilters_parse_roundtrip:
  "map (\<lambda>f. (isExclusive f, filter_value f)) (parseFiltersFromUrl sfx sp) =
     map (\<lambda>kv. (prefix ''!'' (snd kv),
                 FStr (if prefix ''!'' (snd kv) then drop 1 (snd kv) else snd kv)))
       (filter (\<lambda>kv. includes_str (fst kv) sfx
                  \<and> js_replace (fst kv) sfx [] \<in> set validFilters) sp)
   \<and> ((\<forall>i\<in>set items. (\<exists>v. filter_value i = FStr v)
          \<and> column i \<in> set validFilters
          \<and> (\<not> isExclusive i \<longrightarrow> \<not> prefix ''!'' (hd (as_array (filter_value i))))
          \<and> (sfx = [] \<or> hd sfx \<notin> set (column i)))
        \<longrightarrow> parseFiltersFromUrl sfx (encode_as_specified sfx items) = items)
   \<and> set (fst (applyFilters items sfx sp ov))
        \<subseteq> set sp \<union> {(column i @ sfx, v) | i v.
                          i \<in> set items \<and> v \<in> set (as_array (filter_value i))}
   \<and> ((\<forall>f\<in>set flts. filter_value f \<noteq> FStr flt)
        \<longrightarrow> updateFilterState sp flts col columnSuffix flt excl =
              (flts @ [\<lparr>column = columnSuffix, filter_value = FStr flt,
                          isExclusive = excl\<rparr>],
               sp @ [(col, flt)]))
   \<and> ((\<forall>i\<in>set items. (\<exists>v. filter_value i = FStr v \<and> v \<noteq> [])
          \<and> column i \<in> set validFilters \<and> \<not> isExclusive i
          \<and> \<not> prefix ''!'' (hd (as_array (filter_value i)))
          \<and> (sfx = [] \<or> hd sfx \<notin> set (column i)))
        \<and> distinct (map column items)
        \<longrightarrow> parseFiltersFromUrl sfx (fst (applyFilters items sfx [] ov)) = items)"
proof (intro conjI impI)
  let ?enc = "\<lambda>i. (column i @ sfx, hd (as_array (filter_value i)))"
  let ?spec = "\<lambda>i. (column i @ sfx,
                      if isExclusive i then ''!'' @ hd (as_array (filter_value i))
                      else hd (as_array (filter_value i)))"
  show "map (\<lambda>f. (isExclusive f, filter_value f)) (parseFiltersFromUrl sfx sp) =
          map (\<lambda>kv. (prefix ''!'' (snd kv),
                      FStr (if prefix ''!'' (snd kv) then drop 1 (snd kv) else snd kv)))
            (filter (\<lambda>kv. includes_str (fst kv) sfx
                       \<and> js_replace (fst kv) sfx [] \<in> set validFilters) sp)"
    unfolding parse_map_filter by (simp add: entry_of_def startsWith_def substring_def)
  show "set (fst (applyFilters items sfx sp ov))
          \<subseteq> set sp \<union> {(column i @ sfx, v) | i v.
                            i \<in> set items \<and> v \<in> set (as_array (filter_value i))}"
    by (rule applyFilters_pairs)
  {
    assume ok: "\<forall>i\<in>set items. (\<exists>v. filter_value i = FStr v)
                  \<and> column i \<in> set validFilters
                  \<and> (\<not> isExclusive i \<longrightarrow> \<not> prefix ''!'' (hd (as_array (filter_value i))))
                  \<and> (sfx = [] \<or> hd sfx \<notin> set (column i))"
    then have single: "\<forall>i\<in>set items. \<exists>v. filter_value i = FStr v" by blast
    have keep: "filter (\<lambda>kv. includes_str (fst kv) sfx
                          \<and> js_replace (fst kv) sfx [] \<in> set validFilters) (map ?spec items)
                  = map ?spec items"
      using ok by (auto simp: includes_suffix js_replace_suffix filter_id_conv)
    have one: "entry_of sfx (?spec i) = i" if "i \<in> set items" for i
    proof -
      from single that obtain v where v: "filter_value i = FStr v" by blast
      from ok that have c: "sfx = [] \<or> hd sfx \<notin> set (column i)"
        and e: "\<not> isExclusive i \<longrightarrow> \<not> prefix ''!'' (hd (as_array (filter_value i)))"
        by blast+
      show ?thesis
        using v c e
        by (cases "isExclusive i")
           (simp_all add: entry_of_def js_replace_suffix startsWith_def substring_def)
    qed
    have dec: "map (entry_of sfx) (map ?spec items) = items"
      using one by (simp add: map_idI)
    show "parseFiltersFromUrl sfx (encode_as_specified sfx items) = items"
      unfolding encode_as_specified_single[OF single] parse_map_filter keep dec ..
  }
  {
    assume "\<forall>f\<in>set flts. filter_value f \<noteq> FStr flt"
    then have "findIndex (\<lambda>f. filter_value f = FStr flt) flts = None"
      by (intro findIndex_None) simp
    then show "updateFilterState sp flts col columnSuffix flt excl =
                 (flts @ [\<lparr>column = columnSuffix, filter_value = FStr flt,
                             isExclusive = excl\<rparr>],
                  sp @ [(col, flt)])"
      by (simp add: updateFilterState_def sp_append_def)
  }
  {
    assume hyp: "(\<forall>i\<in>set items. (\<exists>v. filter_value i = FStr v \<and> v \<noteq> [])
                   \<and> column i \<in> set validFilters \<and> \<not> isExclusive i
                   \<and> \<not> prefix ''!'' (hd (as_array (filter_value i)))
                   \<and> (sfx = [] \<or> hd sfx \<notin> set (column i)))
                 \<and> distinct (map column items)"
    then have ne: "\<forall>i\<in>set items. \<exists>v. filter_value i = FStr v \<and> v \<noteq> []"
      and dist: "distinct (map column items)" by blast+
    have enc: "fst (applyFilters items sfx [] ov) = map ?enc items"
      using applyFilters_empty[OF ne dist] by simp
    have keep: "filter (\<lambda>kv. includes_str (fst kv) sfx
                          \<and> js_replace (fst kv) sfx [] \<in> set validFilters) (map ?enc items)
                  = map ?enc items"
      using hyp by (auto simp: includes_suffix js_replace_suffix filter_id_conv)
    have one: "entry_of sfx (?enc i) = i" if "i \<in> set items" for i
    proof -
      from ne that obtain v where v: "filter_value i = FStr v" by blast
      from hyp that have "\<not> prefix ''!'' (hd (as_array (filter_value i)))"
        and "sfx = [] \<or> hd sfx \<notin> set (column i)" and "\<not> isExclusive i" by blast+
      then show ?thesis using v by (simp add: entry_of_def js_replace_suffix startsWith_def)
    qed
    have dec: "map (entry_of sfx) (map ?enc items) = items"
      using one by (simp add: map_idI)
    show "parseFiltersFromUrl sfx (fst (applyFilters items sfx [] ov)) = items"
      unfolding enc parse_map_filter keep dec ..
  }
qed

theorem applyFilters_parse_roundtrip_witness:
  "parseFiltersFromUrl ''_perf''
     (fst (applyFilters
        [\<lparr>column = ''cc'', filter_value = FStr ''US'', isExclusive = False\<rparr>,
         \<lparr>column = ''br'', filter_value = FStr ''Chrome'', isExclusive = False\<rparr>]
        ''_perf'' [] True))
   = [\<lparr>column = ''cc'', filter_value = FStr ''US'', isExclusive = False\<rparr>,
      \<lparr>column = ''br'', filter_value = FStr ''Chrome'', isExclusive = False\<rparr>]
   \<and> parseFiltersFromUrl []
       (encode_as_specified []
          [\<lparr>column = ''cc'', filter_value = FStr ''US'', isExclusive = True\<rparr>,
           \<lparr>column = ''cc'', filter_value = FStr [], isExclusive = False\<rparr>])
     = [\<lparr>column = ''cc'', filter_value = FStr ''US'', isExclusive = True\<rparr>,
        \<lparr>column = ''cc'', filter_value = FStr [], isExclusive = False\<rparr>]
   \<and> updateFilterState [] [] ''cc_perf'' ''cc'' ''US'' True
     = ([\<lparr>column = ''cc'', filter_value = FStr ''US'', isExclusive = True\<rparr>],
        [(''cc_perf'', ''US'')])"
proof -
  let ?items = "[\<lparr>column = ''cc'', filter_value = FStr ''US'', isExclusive = False\<rparr>,
                 \<lparr>column = ''br'', filter_value = FStr ''Chrome'', isExclusive = False\<rparr>]"
  let ?excl = "[\<lparr>column = ''cc'', filter_value = FStr ''US'', isExclusive = True\<rparr>,
                \<lparr>column = ''cc'', filter_value = FStr [], isExclusive = False\<rparr>]"
  have h: "(\<forall>i\<in>set ?items. (\<exists>v. filter_value i = FStr v \<and> v \<noteq> [])
              \<and> column i \<in> set validFilters \<and> \<not> isExclusive i
              \<and> \<not> prefix ''!'' (hd (as_array (filter_value i)))
              \<and> (''_perf'' = [] \<or> hd ''_perf'' \<notin> set (column i)))
           \<and> distinct (map column ?items)"
    by (simp add: validFilters_def)
  have g: "\<forall>i\<in>set ?excl. (\<exists>v. filter_value i = FStr v)
              \<and> column i \<in> set validFilters
              \<and> (\<not> isExclusive i \<longrightarrow> \<not> prefix ''!'' (hd (as_array (filter_value i))))
              \<and> ([] = [] \<or> hd [] \<notin> set (column i))"
    by (simp add: validFilters_def)
  have u: "\<forall>f\<in>set ([] :: IFilter list). filter_value f \<noteq> FStr ''US''" by simp
  note t1 = applyFilters_parse_roundtrip[where items = ?items and sfx = "''_perf''" and ov = True]
  note t2 = applyFilters_parse_roundtrip
              [where items = ?excl and sfx = "[]" and flts = "[]" and flt = "''US''"
                 and sp = "[]" and col = "''cc_perf''" and columnSuffix = "''cc''"
                 and excl = True]
  have a: "parseFiltersFromUrl ''_perf'' (fst (applyFilters ?items ''_perf'' [] True)) = ?items"
    using t1[THEN conjunct2, THEN conjunct2, THEN conjunct2, THEN conjunct2] h by blast
  have b: "parseFiltersFromUrl [] (encode_as_specified [] ?excl) = ?excl"
    using t2[THEN conjunct2, THEN conjunct1] g by blast
  have c: "updateFilterState [] [] ''cc_perf'' ''cc'' ''US'' True
             = ([] @ [\<lparr>column = ''cc'', filter_value = FStr ''US'', isExclusive = True\<rparr>],
                [] @ [(''cc_perf'', ''US'')])"
    using t2[THEN conjunct2, THEN conjunct2, THEN conjunct2, THEN conjunct1] u by blast
  from a b c show ?thesis by simp
qed

theorem applyFilters_exclusive_counterexample:
  "parseFiltersFromUrl []
     (fst (applyFilters
        [\<lparr>column = ''cc'', filter_value = FStr ''US'', isExclusive = True\<rparr>] [] [] True))
   = [\<lparr>column = ''cc'', filter_value = FStr ''US'', isExclusive = False\<rparr>]
   \<and> parseFiltersFromUrl []
       (encode_as_specified []
          [\<lparr>column = ''ev:key:plan'', filter_value = FStr ''pro'', isExclusive = False\<rparr>])
     = []"
  by (simp add: applyFilters_def sp_delete_def sp_append_def sp_has_def parseFiltersFromUrl_def
      includes_str_def isFilterValid_def validFilters_def startsWith_def encode_as_specified_def)


section \<open>Theorems: ingestion\<close>


text \<open>
  C2. With the unique-only flag set, \<open>log\<close> tests \<open>unique && logDTO.unique\<close>: a
  duplicate visit is saved and a new visit is rejected with \<open>ForbiddenException\<close>,
  the reverse of what the specification and the exception's message say. \<open>logCustom\<close> tests
  \<open>!unique\<close>: there the duplicate is rejected and the new event is saved.
\<close>

theorem log_unique_only_flag_inverted:
  "log (plain_service False (\<lambda>t. None)) (pageview ''abcdefghijkl'' True None)
       plain_headers None empty_store
     = (Inr (), empty_store\<lparr>analytics :=
          [trafficTransformer ''s1'' ''abcdefghijkl'' (Some ''/'') None ''desktop'' None None
             None None None None None None None None None None None 0 0]\<rparr>)
   \<and> log (plain_service True (\<lambda>t. None)) (pageview ''abcdefghijkl'' True None)
       plain_headers None empty_store
     = (Inl ForbiddenException, empty_store)
   \<and> logCustom (plain_service False (\<lambda>t. None)) (custom_event ''abcdefghijkl'' ''signup'' True)
       plain_headers None empty_store
     = (Inl ForbiddenException, empty_store)
   \<and> logCustom (plain_service True (\<lambda>t. None)) (custom_event ''abcdefghijkl'' ''signup'' True)
       plain_headers None empty_store
     = (Inr (), empty_store\<lparr>customEV :=
          [customEventTransformer ''s1'' ''abcdefghijkl'' ''signup'' (Some ''/'') ''desktop''
             None None None None None None None None None None None None None]\<rparr>)"
  by (simp add: log_def log_save_def logCustom_def logCustom_save_def plain_service_def
      pageview_def custom_event_def plain_headers_def empty_store_def client_ip_def js_or_def
      or_default_def isEmpty_obj_def insert_analytics_def insert_customEV_def
      EventBase.truncate_def)




text \<open>
  C4. Once \<open>noscript\<close> has passed its bot check, \<open>validate\<close>, \<open>isUnique\<close> and
  \<open>processInteractionSD\<close>, it answers with status 200, content type \<open>image/gif\<close> and
  the fixed buffer \<open>TRANSPARENT_GIF_BUFFER\<close> whatever the insert does: a failing insert
  is written to the logger, leaves the tables as they were and is not passed on to the
  caller; a successful one appends the pageview row.
\<close>

theorem noscript_answers_gif:
  assumes bot: "throwIfBot svc p (user_agent hdrs) = None"
    and val: "validate svc (EventBase.truncate (noscript_logDTO p)) (origin hdrs) None None
                = None"
    and uq: "isUnique svc p (user_agent hdrs) (client_ip svc hdrs reqIP) = Inr (uniq, psid)"
    and sd: "processInteractionSD svc psid p = None"
  shows "fst (noscript svc p hdrs reqIP st) = Inr gif_response \<and>
         (\<forall>e. insert_error svc Analytics = Some e \<longrightarrow>
            snd (noscript svc p hdrs reqIP st) = st\<lparr>logged := logged st @ [e]\<rparr>) \<and>
         (insert_error svc Analytics = None \<longrightarrow>
            (\<exists>row. snd (noscript svc p hdrs reqIP st)
                     = st\<lparr>analytics := analytics st @ [row]\<rparr>)) \<and>
         status_code gif_response = 200 \<and> content_type gif_response = ''image/gif'' \<and>
         body gif_response = TRANSPARENT_GIF_BUFFER \<and>
         take 10 TRANSPARENT_GIF_BUFFER = [0x47, 0x49, 0x46, 0x38, 0x39, 0x61, 1, 0, 1, 0]"
proof -
  have gif: "take 10 TRANSPARENT_GIF_BUFFER = [0x47, 0x49, 0x46, 0x38, 0x39, 0x61, 1, 0, 1, 0]"
    by (simp add: TRANSPARENT_GIF_BUFFER_def b64_index_def b64_alphabet_def)
  show ?thesis
    using assms gif
    by (auto simp: noscript_def Let_def noscript_logDTO_def insert_analytics_def
        logger_error_def gif_response_def split: option.splits)
qed

theorem noscript_answers_gif_witness:
  "noscript (plain_service True (\<lambda>t. Some StoreError)) ''abcdefghijkl'' plain_headers None
     empty_store
   = (Inr gif_response, empty_store\<lparr>logged := [StoreError]\<rparr>)"
proof -
  let ?svc = "plain_service True (\<lambda>t. Some StoreError)"
  have h1: "throwIfBot ?svc ''abcdefghijkl'' (user_agent plain_headers) = None"
    by (simp add: plain_service_def)
  have h2: "validate ?svc (EventBase.truncate (noscript_logDTO ''abcdefghijkl''))
              (origin plain_headers) None None = None"
    by (simp add: plain_service_def)
  have h3: "isUnique ?svc ''abcdefghijkl'' (user_agent plain_headers)
              (client_ip ?svc plain_headers None) = Inr (True, ''s1'')"
    by (simp add: plain_service_def)
  have h4: "processInteractionSD ?svc ''s1'' ''abcdefghijkl'' = None"
    by (simp add: plain_service_def)
  have h5: "insert_error ?svc Analytics = Some StoreError"
    by (simp add: plain_service_def)
  have e: "logged empty_store = []" by (simp add: empty_store_def)
  from noscript_answers_gif[OF h1 h2 h3 h4, of empty_store] h5
  have "fst (noscript ?svc ''abcdefghijkl'' plain_headers None empty_store) = Inr gif_response"
    and "snd (noscript ?svc ''abcdefghijkl'' plain_headers None empty_store)
           = empty_store\<lparr>logged := logged empty_store @ [StoreError]\<rparr>"
    by blast+
  then show ?thesis unfolding e by (simp add: prod_eq_iff)
qed

section \<open>Theorems: queries\<close>

lemmas json_eval =
  JSON_parse_def tokenize_def start_step_def esc_step_def is_ws_def is_digit_def
  is_digit19_def hex_val_def value_step_def close_step_def key_step_def

lemma all_time_block_all:
  "getTimeBucketForAllTime svc p per z = Inr res \<Longrightarrow>
   all_time_block svc True p per z tb =
     (Inr (requested_or_first (allowed_timeBucket res) tb, Some (diff res),
           Some (allowed_timeBucket res)), [GetTimeBucketForAllTime])"
  by (auto simp: all_time_block_def requested_or_first_def includes_arr_def first_elem_def
      split: option.splits list.splits)

lemma companions_trace:
  "set (snd (getData_companions svc fq ms allowed result tr))
     \<subseteq> set tr \<union> {GetCustomEvents, GetPageProperties, GetMetaResults ms}"
  by (auto simp: getData_companions_def split: sum.splits if_splits)

lemma companions_ok:
  "fst (getData_companions svc fq ms allowed result tr) = Inr r \<Longrightarrow>
     r_timeBucket r = allowed \<and> set tr \<subseteq> set (snd (getData_companions svc fq ms allowed result tr))"
  by (auto simp: getData_companions_def split: sum.splits if_splits)

lemma getData_grouping_all:
  assumes "period data = ''all''"
    and "getTimeBucketForAllTime svc (pid data) ''all'' z = Inr res"
  shows "(\<forall>b. GroupByTimeBucket b \<in> set (snd (getData_grouping svc data z ms))
            \<longrightarrow> b = requested_or_first (allowed_timeBucket res) (timeBucket data))
       \<and> (\<forall>r. fst (getData_grouping svc data z ms) = Inr r
            \<longrightarrow> GroupByTimeBucket (requested_or_first (allowed_timeBucket res) (timeBucket data))
                  \<in> set (snd (getData_grouping svc data z ms))
              \<and> r_timeBucket r = Some (allowed_timeBucket res))"
proof -
  let ?b = "requested_or_first (allowed_timeBucket res) (timeBucket data)"
  let ?tr = "[GetTimeBucketForAllTime, GroupByTimeBucket ?b]"
  have blk: "all_time_block svc (period data = ''all'') (pid data) (period data) z (timeBucket data)
      = (Inr (?b, Some (diff res), Some (allowed_timeBucket res)), [GetTimeBucketForAllTime])"
    using assms all_time_block_all[of svc "pid data" "''all''" z res "timeBucket data"] by simp
  have tr: "set (snd (getData_grouping svc data z ms)) \<subseteq>
             {GetTimeBucketForAllTime, GroupByTimeBucket ?b, GetCustomEvents, GetPageProperties, GetMetaResults ms}"
    unfolding getData_grouping_def blk
    using companions_trace[of svc _ ms "Some (allowed_timeBucket res)" _ ?tr]
    by (auto simp: Let_def split: sum.splits)
  have ok: "GroupByTimeBucket ?b \<in> set (snd (getData_grouping svc data z ms)) \<and>
            r_timeBucket r = Some (allowed_timeBucket res)"
    if "fst (getData_grouping svc data z ms) = Inr r" for r
    using that unfolding getData_grouping_def blk
    using companions_ok[of svc _ ms "Some (allowed_timeBucket res)" _ ?tr r]
    by (auto simp: Let_def split: sum.splits)
  show ?thesis using tr ok by blast
qed


lemma getData_all:
  assumes "period data = ''all''"
    and "getTimeBucketForAllTime svc (pid data) ''all''
           (or_else (timezone data) (DEFAULT_TIMEZONE cfg)) = Inr res"
  shows "(\<forall>b. GroupByTimeBucket b \<in> set (snd (getData cfg svc data uid pw))
            \<longrightarrow> b = requested_or_first (allowed_timeBucket res) (timeBucket data))
       \<and> (\<forall>r. fst (getData cfg svc data uid pw) = Inr r
            \<longrightarrow> GroupByTimeBucket (requested_or_first (allowed_timeBucket res) (timeBucket data))
                  \<in> set (snd (getData cfg svc data uid pw))
              \<and> r_timeBucket r = Some (allowed_timeBucket res))"
  using getData_grouping_all[OF assms]
  by (auto simp: getData_def Let_def split: option.splits sum.splits)

lemma getPerfData_all:
  assumes "period data = ''all''"
    and "getTimeBucketForAllTime svc (pid data) ''all''
           (or_else (timezone data) (DEFAULT_TIMEZONE cfg)) = Inr res"
  shows "(\<forall>b. GroupPerfByTimeBucket b \<in> set (snd (getPerfData cfg svc data uid pw))
            \<longrightarrow> b = requested_or_first (allowed_timeBucket res) (timeBucket data))
       \<and> (\<forall>r. fst (getPerfData cfg svc data uid pw) = Inr r
            \<longrightarrow> GroupPerfByTimeBucket (requested_or_first (allowed_timeBucket res) (timeBucket data))
                  \<in> set (snd (getPerfData cfg svc data uid pw))
              \<and> g_timeBucket r = Some (allowed_timeBucket res))"
proof -
  let ?z = "or_else (timezone data) (DEFAULT_TIMEZONE cfg)"
  have blk: "all_time_block svc (period data = ''all'') (pid data) (period data) ?z (timeBucket data)
      = (Inr (requested_or_first (allowed_timeBucket res) (timeBucket data), Some (diff res),
              Some (allowed_timeBucket res)), [GetTimeBucketForAllTime])"
    using assms all_time_block_all[of svc "pid data" "''all''" ?z res "timeBucket data"] by simp
  show ?thesis
    unfolding getPerfData_def Let_def blk
    by (auto split: option.splits sum.splits)
qed

lemma getCustomEvents_all:
  assumes "period data = ''all''"
    and "last_elem (VALID_PERIODS cfg) = Some ''all''"
    and "getTimeBucketForAllTime svc (pid data) ''all''
           (or_else (timezone data) (DEFAULT_TIMEZONE cfg)) = Inr res"
  shows "(\<forall>b. GroupCustomEVByTimeBucket b \<in> set (snd (getCustomEvents gt cfg svc data uid pw))
            \<longrightarrow> b = requested_or_first (allowed_timeBucket res) (timeBucket data))
       \<and> (\<forall>r. fst (getCustomEvents gt cfg svc data uid pw) = Inr r
            \<longrightarrow> GroupCustomEVByTimeBucket (requested_or_first (allowed_timeBucket res) (timeBucket data))
                  \<in> set (snd (getCustomEvents gt cfg svc data uid pw))
              \<and> g_timeBucket r = Some (allowed_timeBucket res))"
proof -
  let ?z = "or_else (timezone data) (DEFAULT_TIMEZONE cfg)"
  have blk: "all_time_block svc (Some (period data) = last_elem (VALID_PERIODS cfg)) (pid data) (period data) ?z (timeBucket data)
      = (Inr (requested_or_first (allowed_timeBucket res) (timeBucket data), Some (diff res),
              Some (allowed_timeBucket res)), [GetTimeBucketForAllTime])"
    using assms all_time_block_all[of svc "pid data" "''all''" ?z res "timeBucket data"] by simp
  show ?thesis
    unfolding getCustomEvents_def Let_def blk
    by (auto split: option.splits sum.splits)
qed

lemma companions_prefix:
  "take (length tr) (snd (getData_companions svc fq ms allowed result tr)) = tr"
  by (auto simp: getData_companions_def split: sum.splits if_splits)

lemma getData_issues:
  assumes "period data = ''all''"
    and "getTimeBucketForAllTime svc (pid data) ''all''
           (or_else (timezone data) (DEFAULT_TIMEZONE cfg)) = Inr res"
    and "validatePID svc (pid data) = None"
    and "checkProjectAccess svc (pid data) uid pw = None"
    and "parseMetrics svc (metrics data) = Inr ms"
    and "length ms \<le> MAX_METRICS_IN_VIEW cfg"
    and "getFiltersQuery svc (filters data) ANALYTICS = Inr fq"
    and "getGroupFromTo svc (from' data) (to' data)
           (requested_or_first (allowed_timeBucket res) (timeBucket data)) (period data)
           (getSafeTimezone svc (or_else (timezone data) (DEFAULT_TIMEZONE cfg)))
           (Some (diff res)) = Inr g"
  shows "take 2 (snd (getData cfg svc data uid pw))
           = [GetTimeBucketForAllTime,
              GroupByTimeBucket (requested_or_first (allowed_timeBucket res) (timeBucket data))]"
proof -
  let ?z = "or_else (timezone data) (DEFAULT_TIMEZONE cfg)"
  let ?b = "requested_or_first (allowed_timeBucket res) (timeBucket data)"
  let ?tr = "[GetTimeBucketForAllTime, GroupByTimeBucket ?b]"
  have blk: "all_time_block svc (period data = ''all'') (pid data) (period data) ?z (timeBucket data)
      = (Inr (?b, Some (diff res), Some (allowed_timeBucket res)), [GetTimeBucketForAllTime])"
    using assms(1,2) all_time_block_all[of svc "pid data" "''all''" ?z res "timeBucket data"]
    by simp
  have top: "getData cfg svc data uid pw = getData_grouping svc data ?z ms"
    using assms(3,4,5,6) by (simp add: getData_def Let_def)
  have len: "length ?tr = 2" by simp
  have pre: "take 2 (snd (getData_companions svc fq ms allowed result ?tr)) = ?tr"
    for allowed result
    using companions_prefix[of ?tr svc fq ms allowed result] unfolding len .
  show ?thesis
    unfolding top getData_grouping_def blk
    using assms(7,8) pre by (simp add: Let_def split: sum.splits)
qed

lemma getPerfData_issues:
  assumes "period data = ''all''"
    and "getTimeBucketForAllTime svc (pid data) ''all''
           (or_else (timezone data) (DEFAULT_TIMEZONE cfg)) = Inr res"
    and "validatePID svc (pid data) = None"
    and "checkIfPerfMeasureIsValid svc (or_else (measure data) DEFAULT_MEASURE) = None"
    and "checkProjectAccess svc (pid data) uid pw = None"
    and "getFiltersQuery svc (filters data) PERFORMANCE = Inr fq"
    and "getGroupFromTo svc (from' data) (to' data)
           (requested_or_first (allowed_timeBucket res) (timeBucket data)) (period data)
           (getSafeTimezone svc (or_else (timezone data) (DEFAULT_TIMEZONE cfg)))
           (Some (diff res)) = Inr g"
  shows "snd (getPerfData cfg svc data uid pw)
           = [GetTimeBucketForAllTime,
              GroupPerfByTimeBucket
                (requested_or_first (allowed_timeBucket res) (timeBucket data))]"
proof -
  let ?z = "or_else (timezone data) (DEFAULT_TIMEZONE cfg)"
  let ?b = "requested_or_first (allowed_timeBucket res) (timeBucket data)"
  have blk: "all_time_block svc (period data = ''all'') (pid data) (period data) ?z (timeBucket data)
      = (Inr (?b, Some (diff res), Some (allowed_timeBucket res)), [GetTimeBucketForAllTime])"
    using assms(1,2) all_time_block_all[of svc "pid data" "''all''" ?z res "timeBucket data"]
    by simp
  show ?thesis
    unfolding getPerfData_def Let_def blk
    using assms(3-7) by (simp split: sum.splits)
qed

lemma getCustomEvents_issues:
  assumes "period data = ''all''"
    and "last_elem (VALID_PERIODS cfg) = Some ''all''"
    and "getTimeBucketForAllTime svc (pid data) ''all''
           (or_else (timezone data) (DEFAULT_TIMEZONE cfg)) = Inr res"
    and "validatePID svc (pid data) = None"
    and "checkProjectAccess svc (pid data) uid pw = None"
    and "getFiltersQuery svc (filters data) ANALYTICS = Inr fq"
    and "getGroupFromTo svc (from' data) (to' data)
           (requested_or_first (allowed_timeBucket res) (timeBucket data)) (period data)
           (getSafeTimezone svc (or_else (timezone data) (DEFAULT_TIMEZONE cfg)))
           (Some (diff res)) = Inr g"
  shows "snd (getCustomEvents gt cfg svc data uid pw)
           = [GetTimeBucketForAllTime,
              GroupCustomEVByTimeBucket
                (requested_or_first (allowed_timeBucket res) (timeBucket data))]"
proof -
  let ?z = "or_else (timezone data) (DEFAULT_TIMEZONE cfg)"
  let ?b = "requested_or_first (allowed_timeBucket res) (timeBucket data)"
  have blk: "all_time_block svc (Some (period data) = last_elem (VALID_PERIODS cfg)) (pid data) (period data) ?z (timeBucket data)
      = (Inr (?b, Some (diff res), Some (allowed_timeBucket res)), [GetTimeBucketForAllTime])"
    using assms(1,2,3) all_time_block_all[of svc "pid data" "''all''" ?z res "timeBucket data"]
    by simp
  show ?thesis
    unfolding getCustomEvents_def Let_def blk
    using assms(4-7) by (simp split: sum.splits)
qed

text \<open>
  What \<open>getCustomEvents\<close> does with the chart, on the service whose grouping has the
  events \<open>signup\<close> and \<open>purchase\<close>. Without \<open>filters\<close> the parameter stays a string and
  an event is kept when its name occurs in it; with \<open>filters\<close> it is parsed, and an
  array keeps the events it lists. The empty string empties the chart. An absent
  parameter ends the request in \<open>TypeError\<close>, after the grouping query.
\<close>

lemma getCustomEvents_on_fixture:
  "getCustomEvents gt spec_config custom_events_service
     (custom_events_request ''7d'' None None (Some ''signup'')) None None
   = (Inr \<lparr>g_chart = \<lparr>ce_chart = Chart [1, 2] [(''signup'', [3, 0])], ce_others = []\<rparr>,
           g_appliedFilters = [], g_timeBucket = None\<rparr>,
      [GroupCustomEVByTimeBucket None])"
  "getCustomEvents gt spec_config custom_events_service
     (custom_events_request ''7d'' None (Some ''{}'') (Some ''[\"purchase\"]'')) None None
   = (Inr \<lparr>g_chart = \<lparr>ce_chart = Chart [1, 2] [(''purchase'', [0, 1])], ce_others = []\<rparr>,
           g_appliedFilters = [], g_timeBucket = None\<rparr>,
      [GroupCustomEVByTimeBucket None])"
  "getCustomEvents gt spec_config custom_events_service
     (custom_events_request ''7d'' None None (Some [])) None None
   = (Inr \<lparr>g_chart = \<lparr>ce_chart = EmptyChart, ce_others = []\<rparr>,
           g_appliedFilters = [], g_timeBucket = None\<rparr>,
      [GroupCustomEVByTimeBucket None])"
  "getCustomEvents gt spec_config custom_events_service
     (custom_events_request ''7d'' None None None) None None
   = (Inl TypeError, [GroupCustomEVByTimeBucket None])"
  "getCustomEvents gt spec_config custom_events_service
     (custom_events_request ''7d'' None (Some ''{}'') None) None None
   = (Inl TypeError, [GroupCustomEVByTimeBucket None])"
  by (simp_all add: getCustomEvents_def all_time_block_def custom_events_service_def
      custom_events_request_def spec_config_def last_elem_def prune_chart_def
      parsed_customEvents_def truthy_str_def signup_purchase_def includes_str_def
      or_else_def Let_def json_eval)

lemma getData_cap:
  assumes "parseMetrics svc (metrics data) = Inr parsedMetrics"
    and "length parsedMetrics > MAX_METRICS_IN_VIEW cfg"
  shows "snd (getData cfg svc data uid pw) = []
       \<and> (\<exists>e. fst (getData cfg svc data uid pw) = Inl e)
       \<and> (validatePID svc (pid data) = None \<and> checkProjectAccess svc (pid data) uid pw = None
            \<longrightarrow> fst (getData cfg svc data uid pw) = Inl BadRequestException)"
  using assms by (auto simp: getData_def Let_def split: option.splits)

lemma list_bucket_trace:
  "set (snd (list_bucket_block svc p per z f t)) \<subseteq> {GetTimeBucketForAllTime}"
  by (auto simp: list_bucket_block_def split: sum.splits if_splits)

lemma list_body_trace:
  "set (snd (list_body svc data z lq tk sk)) \<subseteq> {GetTimeBucketForAllTime, lq}"
  using list_bucket_trace[of svc "pid data" "period data" z "from' data" "to' data"]
  by (auto simp: list_body_def Let_def split: sum.splits prod.splits)

lemma list_body_ok:
  "fst (list_body svc data z lq tk sk) = Inr r \<Longrightarrow>
     l_take r = tk \<and> l_skip r = sk \<and> lq \<in> set (snd (list_body svc data z lq tk sk))"
  by (auto simp: list_body_def Let_def split: sum.splits prod.splits)

lemma list_body_pass:
  assumes "list_collaborators_pass svc data z lq"
  shows "\<exists>r. fst (list_body svc data z lq tk sk) = Inr r"
proof -
  from assms obtain fq items where fq: "getFiltersQuery svc (filters data) ANALYTICS = Inr fq"
    and it: "run_query svc lq = Inr items"
    and g: "\<And>b d. \<exists>g. getGroupFromTo svc (from' data) (to' data) b (period data)
                        (getSafeTimezone svc z) d = Inr g"
    and a: "period data = ''all'' \<Longrightarrow>
         (\<exists>res. getTimeBucketForAllTime svc (pid data) (period data) z = Inr res)"
    unfolding list_collaborators_pass_def by blast
  have "\<exists>b d tr. list_bucket_block svc (pid data) (period data) z (from' data) (to' data)
       = (Inr (b, d), tr)"
  proof (cases "period data = ''all''")
    case True
    with a obtain res where "getTimeBucketForAllTime svc (pid data) (period data) z = Inr res"
      by blast
    with True show ?thesis by (simp add: list_bucket_block_def)
  next
    case False
    then show ?thesis by (simp add: list_bucket_block_def)
  qed
  then obtain b d tr where blk: "list_bucket_block svc (pid data) (period data) z (from' data) (to' data)
       = (Inr (b, d), tr)" by blast
  from g[of b d] obtain gr where gr: "getGroupFromTo svc (from' data) (to' data) b (period data)
                        (getSafeTimezone svc z) d = Inr gr" by blast
  show ?thesis
    unfolding list_body_def blk using fq it gr by (simp add: Let_def)
qed

lemma getSessions_take:
  "(150 < getSafeNumber (take' data) 30 \<longrightarrow>
       snd (getSessions cfg svc data uid pw) = []
     \<and> (\<exists>e. fst (getSessions cfg svc data uid pw) = Inl e)
     \<and> (validatePID svc (pid data) = None \<and> checkProjectAccess svc (pid data) uid pw = None
          \<longrightarrow> fst (getSessions cfg svc data uid pw) = Inl BadRequestException))
   \<and> (\<forall>tk sk. GetSessionsList tk sk \<in> set (snd (getSessions cfg svc data uid pw)) \<longrightarrow>
         tk = getSafeNumber (take' data) 30 \<and> tk \<le> 150 \<and> sk = getSafeNumber (skip' data) 0)
   \<and> (\<forall>r. fst (getSessions cfg svc data uid pw) = Inr r \<longrightarrow>
         l_take r = getSafeNumber (take' data) 30 \<and> l_skip r = getSafeNumber (skip' data) 0
       \<and> GetSessionsList (l_take r) (l_skip r) \<in> set (snd (getSessions cfg svc data uid pw)))
   \<and> (getSafeNumber (take' data) 30 \<le> 150
        \<and> validatePID svc (pid data) = None \<and> checkProjectAccess svc (pid data) uid pw = None
        \<and> list_collaborators_pass svc data (or_else (timezone data) (DEFAULT_TIMEZONE cfg))
             (GetSessionsList (getSafeNumber (take' data) 30) (getSafeNumber (skip' data) 0))
        \<longrightarrow> (\<exists>r. fst (getSessions cfg svc data uid pw) = Inr r))"
  using list_body_trace[of svc data "or_else (timezone data) (DEFAULT_TIMEZONE cfg)"
          "GetSessionsList (getSafeNumber (take' data) 30) (getSafeNumber (skip' data) 0)"
          "getSafeNumber (take' data) 30" "getSafeNumber (skip' data) 0"]
        list_body_ok[of svc data "or_else (timezone data) (DEFAULT_TIMEZONE cfg)"
          "GetSessionsList (getSafeNumber (take' data) 30) (getSafeNumber (skip' data) 0)"
          "getSafeNumber (take' data) 30" "getSafeNumber (skip' data) 0"]
        list_body_pass[of svc data "or_else (timezone data) (DEFAULT_TIMEZONE cfg)"
          "GetSessionsList (getSafeNumber (take' data) 30) (getSafeNumber (skip' data) 0)"
          "getSafeNumber (take' data) 30" "getSafeNumber (skip' data) 0"]
  by (auto simp: getSessions_def Let_def split: option.splits)

lemma getErrors_take:
  "(150 < getSafeNumber (take' data) 30 \<longrightarrow>
       snd (getErrors cfg svc data uid pw) = []
     \<and> (\<exists>e. fst (getErrors cfg svc data uid pw) = Inl e)
     \<and> (validatePID svc (pid data) = None \<and> checkProjectAccess svc (pid data) uid pw = None
          \<longrightarrow> fst (getErrors cfg svc data uid pw) = Inl BadRequestException))
   \<and> (\<forall>tk sk. GetErrorsList tk sk \<in> set (snd (getErrors cfg svc data uid pw)) \<longrightarrow>
         tk = getSafeNumber (take' data) 30 \<and> tk \<le> 150 \<and> sk = getSafeNumber (skip' data) 0)
   \<and> (\<forall>r. fst (getErrors cfg svc data uid pw) = Inr r \<longrightarrow>
         l_take r = getSafeNumber (take' data) 30 \<and> l_skip r = getSafeNumber (skip' data) 0
       \<and> GetErrorsList (l_take r) (l_skip r) \<in> set (snd (getErrors cfg svc data uid pw)))
   \<and> (getSafeNumber (take' data) 30 \<le> 150
        \<and> validatePID svc (pid data) = None \<and> checkProjectAccess svc (pid data) uid pw = None
        \<and> list_collaborators_pass svc data (or_else (timezone data) (DEFAULT_TIMEZONE cfg))
             (GetErrorsList (getSafeNumber (take' data) 30) (getSafeNumber (skip' data) 0))
        \<longrightarrow> (\<exists>r. fst (getErrors cfg svc data uid pw) = Inr r))"
  using list_body_trace[of svc data "or_else (timezone data) (DEFAULT_TIMEZONE cfg)"
          "GetErrorsList (getSafeNumber (take' data) 30) (getSafeNumber (skip' data) 0)"
          "getSafeNumber (take' data) 30" "getSafeNumber (skip' data) 0"]
        list_body_ok[of svc data "or_else (timezone data) (DEFAULT_TIMEZONE cfg)"
          "GetErrorsList (getSafeNumber (take' data) 30) (getSafeNumber (skip' data) 0)"
          "getSafeNumber (take' data) 30" "getSafeNumber (skip' data) 0"]
        list_body_pass[of svc data "or_else (timezone data) (DEFAULT_TIMEZONE cfg)"
          "GetErrorsList (getSafeNumber (take' data) 30) (getSafeNumber (skip' data) 0)"
          "getSafeNumber (take' data) 30" "getSafeNumber (skip' data) 0"]
  by (auto simp: getErrors_def Let_def split: option.splits)

text \<open>
  C1. For a request with period \<open>'all'\<close> whose allowed buckets
  \<open>getTimeBucketForAllTime\<close> has returned, the bucket used for grouping is the
  requested \<open>timeBucket\<close> when it is a member of the allowed list and the first
  element of the allowed list otherwise. For each of \<open>getData\<close>, \<open>getPerfData\<close> and
  \<open>getCustomEvents\<close>: every grouping query the handler issues carries that bucket;
  when the checks before the grouping pass and \<open>getFiltersQuery\<close> and
  \<open>getGroupFromTo\<close> (called with that bucket) answer, the handler issues the
  all-time lookup and then the grouping query with that bucket, a bucket outside the
  list included; and a request that succeeds reports the allowed list.
  \<open>getCustomEvents\<close> recognises the period as the last element of \<open>VALID_PERIODS\<close>,
  which is \<open>'all'\<close>.
\<close>

theorem all_time_bucket_used_for_grouping:
  assumes "period d1 = ''all''"
    and "getTimeBucketForAllTime svc1 (pid d1) ''all''
           (or_else (timezone d1) (DEFAULT_TIMEZONE cfg)) = Inr res1"
    and "period d2 = ''all''"
    and "getTimeBucketForAllTime svc2 (pid d2) ''all''
           (or_else (timezone d2) (DEFAULT_TIMEZONE cfg)) = Inr res2"
    and "period d3 = ''all''"
    and "last_elem (VALID_PERIODS cfg) = Some ''all''"
    and "getTimeBucketForAllTime svc3 (pid d3) ''all''
           (or_else (timezone d3) (DEFAULT_TIMEZONE cfg)) = Inr res3"
  shows "((\<forall>b. GroupByTimeBucket b \<in> set (snd (getData cfg svc1 d1 uid pw))
             \<longrightarrow> b = requested_or_first (allowed_timeBucket res1) (timeBucket d1))
        \<and> (validatePID svc1 (pid d1) = None
            \<and> checkProjectAccess svc1 (pid d1) uid pw = None
            \<and> (\<exists>ms. parseMetrics svc1 (metrics d1) = Inr ms
                      \<and> length ms \<le> MAX_METRICS_IN_VIEW cfg)
            \<and> (\<exists>fq. getFiltersQuery svc1 (filters d1) ANALYTICS = Inr fq)
            \<and> (\<exists>g. getGroupFromTo svc1 (from' d1) (to' d1)
                       (requested_or_first (allowed_timeBucket res1) (timeBucket d1))
                       (period d1)
                       (getSafeTimezone svc1 (or_else (timezone d1) (DEFAULT_TIMEZONE cfg)))
                       (Some (diff res1)) = Inr g)
             \<longrightarrow> take 2 (snd (getData cfg svc1 d1 uid pw))
                   = [GetTimeBucketForAllTime,
                      GroupByTimeBucket
                        (requested_or_first (allowed_timeBucket res1) (timeBucket d1))])
        \<and> (\<forall>r. fst (getData cfg svc1 d1 uid pw) = Inr r
             \<longrightarrow> GroupByTimeBucket (requested_or_first (allowed_timeBucket res1) (timeBucket d1))
                   \<in> set (snd (getData cfg svc1 d1 uid pw))
               \<and> r_timeBucket r = Some (allowed_timeBucket res1)))
       \<and> ((\<forall>b. GroupPerfByTimeBucket b \<in> set (snd (getPerfData cfg svc2 d2 uid pw))
             \<longrightarrow> b = requested_or_first (allowed_timeBucket res2) (timeBucket d2))
        \<and> (validatePID svc2 (pid d2) = None
            \<and> checkIfPerfMeasureIsValid svc2 (or_else (measure d2) DEFAULT_MEASURE) = None
            \<and> checkProjectAccess svc2 (pid d2) uid pw = None
            \<and> (\<exists>fq. getFiltersQuery svc2 (filters d2) PERFORMANCE = Inr fq)
            \<and> (\<exists>g. getGroupFromTo svc2 (from' d2) (to' d2)
                       (requested_or_first (allowed_timeBucket res2) (timeBucket d2))
                       (period d2)
                       (getSafeTimezone svc2 (or_else (timezone d2) (DEFAULT_TIMEZONE cfg)))
                       (Some (diff res2)) = Inr g)
             \<longrightarrow> snd (getPerfData cfg svc2 d2 uid pw)
                   = [GetTimeBucketForAllTime,
                      GroupPerfByTimeBucket
                        (requested_or_first (allowed_timeBucket res2) (timeBucket d2))])
        \<and> (\<forall>r. fst (getPerfData cfg svc2 d2 uid pw) = Inr r
             \<longrightarrow> GroupPerfByTimeBucket
                     (requested_or_first (allowed_timeBucket res2) (timeBucket d2))
                   \<in> set (snd (getPerfData cfg svc2 d2 uid pw))
               \<and> g_timeBucket r = Some (allowed_timeBucket res2)))
       \<and> ((\<forall>b. GroupCustomEVByTimeBucket b
                  \<in> set (snd (getCustomEvents gt cfg svc3 d3 uid pw))
             \<longrightarrow> b = requested_or_first (allowed_timeBucket res3) (timeBucket d3))
        \<and> (validatePID svc3 (pid d3) = None
            \<and> checkProjectAccess svc3 (pid d3) uid pw = None
            \<and> (\<exists>fq. getFiltersQuery svc3 (filters d3) ANALYTICS = Inr fq)
            \<and> (\<exists>g. getGroupFromTo svc3 (from' d3) (to' d3)
                       (requested_or_first (allowed_timeBucket res3) (timeBucket d3))
                       (period d3)
                       (getSafeTimezone svc3 (or_else (timezone d3) (DEFAULT_TIMEZONE cfg)))
                       (Some (diff res3)) = Inr g)
             \<longrightarrow> snd (getCustomEvents gt cfg svc3 d3 uid pw)
                   = [GetTimeBucketForAllTime,
                      GroupCustomEVByTimeBucket
                        (requested_or_first (allowed_timeBucket res3) (timeBucket d3))])
        \<and> (\<forall>r. fst (getCustomEvents gt cfg svc3 d3 uid pw) = Inr r
             \<longrightarrow> GroupCustomEVByTimeBucket
                     (requested_or_first (allowed_timeBucket res3) (timeBucket d3))
                   \<in> set (snd (getCustomEvents gt cfg svc3 d3 uid pw))
               \<and> g_timeBucket r = Some (allowed_timeBucket res3)))"
proof -
  note a1 = getData_all[OF assms(1,2), of uid pw]
  note a2 = getPerfData_all[OF assms(3,4), of uid pw]
  note a3 = getCustomEvents_all[OF assms(5,6,7), of gt uid pw]
  have i1: "take 2 (snd (getData cfg svc1 d1 uid pw))
              = [GetTimeBucketForAllTime,
                 GroupByTimeBucket
                   (requested_or_first (allowed_timeBucket res1) (timeBucket d1))]"
    if "validatePID svc1 (pid d1) = None
        \<and> checkProjectAccess svc1 (pid d1) uid pw = None
        \<and> (\<exists>ms. parseMetrics svc1 (metrics d1) = Inr ms
                  \<and> length ms \<le> MAX_METRICS_IN_VIEW cfg)
        \<and> (\<exists>fq. getFiltersQuery svc1 (filters d1) ANALYTICS = Inr fq)
        \<and> (\<exists>g. getGroupFromTo svc1 (from' d1) (to' d1)
                   (requested_or_first (allowed_timeBucket res1) (timeBucket d1))
                   (period d1)
                   (getSafeTimezone svc1 (or_else (timezone d1) (DEFAULT_TIMEZONE cfg)))
                   (Some (diff res1)) = Inr g)"
  proof -
    from that obtain ms fq g where
      "validatePID svc1 (pid d1) = None" "checkProjectAccess svc1 (pid d1) uid pw = None"
      "parseMetrics svc1 (metrics d1) = Inr ms" "length ms \<le> MAX_METRICS_IN_VIEW cfg"
      "getFiltersQuery svc1 (filters d1) ANALYTICS = Inr fq"
      "getGroupFromTo svc1 (from' d1) (to' d1)
         (requested_or_first (allowed_timeBucket res1) (timeBucket d1)) (period d1)
         (getSafeTimezone svc1 (or_else (timezone d1) (DEFAULT_TIMEZONE cfg)))
         (Some (diff res1)) = Inr g"
      by blast
    then show ?thesis by (rule getData_issues[OF assms(1,2)])
  qed
  have i2: "snd (getPerfData cfg svc2 d2 uid pw)
              = [GetTimeBucketForAllTime,
                 GroupPerfByTimeBucket
                   (requested_or_first (allowed_timeBucket res2) (timeBucket d2))]"
    if "validatePID svc2 (pid d2) = None
        \<and> checkIfPerfMeasureIsValid svc2 (or_else (measure d2) DEFAULT_MEASURE) = None
        \<and> checkProjectAccess svc2 (pid d2) uid pw = None
        \<and> (\<exists>fq. getFiltersQuery svc2 (filters d2) PERFORMANCE = Inr fq)
        \<and> (\<exists>g. getGroupFromTo svc2 (from' d2) (to' d2)
                   (requested_or_first (allowed_timeBucket res2) (timeBucket d2))
                   (period d2)
                   (getSafeTimezone svc2 (or_else (timezone d2) (DEFAULT_TIMEZONE cfg)))
                   (Some (diff res2)) = Inr g)"
  proof -
    from that obtain fq g where
      "validatePID svc2 (pid d2) = None"
      "checkIfPerfMeasureIsValid svc2 (or_else (measure d2) DEFAULT_MEASURE) = None"
      "checkProjectAccess svc2 (pid d2) uid pw = None"
      "getFiltersQuery svc2 (filters d2) PERFORMANCE = Inr fq"
      "getGroupFromTo svc2 (from' d2) (to' d2)
         (requested_or_first (allowed_timeBucket res2) (timeBucket d2)) (period d2)
         (getSafeTimezone svc2 (or_else (timezone d2) (DEFAULT_TIMEZONE cfg)))
         (Some (diff res2)) = Inr g"
      by blast
    then show ?thesis by (rule getPerfData_issues[OF assms(3,4)])
  qed
  have i3: "snd (getCustomEvents gt cfg svc3 d3 uid pw)
              = [GetTimeBucketForAllTime,
                 GroupCustomEVByTimeBucket
                   (requested_or_first (allowed_timeBucket res3) (timeBucket d3))]"
    if "validatePID svc3 (pid d3) = None
        \<and> checkProjectAccess svc3 (pid d3) uid pw = None
        \<and> (\<exists>fq. getFiltersQuery svc3 (filters d3) ANALYTICS = Inr fq)
        \<and> (\<exists>g. getGroupFromTo svc3 (from' d3) (to' d3)
                   (requested_or_first (allowed_timeBucket res3) (timeBucket d3))
                   (period d3)
                   (getSafeTimezone svc3 (or_else (timezone d3) (DEFAULT_TIMEZONE cfg)))
                   (Some (diff res3)) = Inr g)"
  proof -
    from that obtain fq g where
      "validatePID svc3 (pid d3) = None" "checkProjectAccess svc3 (pid d3) uid pw = None"
      "getFiltersQuery svc3 (filters d3) ANALYTICS = Inr fq"
      "getGroupFromTo svc3 (from' d3) (to' d3)
         (requested_or_first (allowed_timeBucket res3) (timeBucket d3)) (period d3)
         (getSafeTimezone svc3 (or_else (timezone d3) (DEFAULT_TIMEZONE cfg)))
         (Some (diff res3)) = Inr g"
      by blast
    then show ?thesis by (rule getCustomEvents_issues[OF assms(5,6,7)])
  qed
  show ?thesis
    apply (intro conjI impI)
            apply (rule a1[THEN conjunct1])
           apply (erule i1)
          apply (rule a1[THEN conjunct2])
         apply (rule a2[THEN conjunct1])
        apply (erule i2)
       apply (rule a2[THEN conjunct2])
      apply (rule a3[THEN conjunct1])
     apply (erule i3)
    apply (rule a3[THEN conjunct2])
    done
qed

lemma plain_all_time:
  "getTimeBucketForAllTime (plain_query_service ms) p ''all'' z
     = Inr \<lparr>allowed_timeBucket = [''day'', ''week'', ''month''], diff = 40\<rparr>"
  by (simp add: plain_query_service_def)

lemma custom_all_time:
  "getTimeBucketForAllTime custom_events_service p ''all'' z
     = Inr \<lparr>allowed_timeBucket = [''day'', ''week'', ''month''], diff = 40\<rparr>"
  by (simp add: custom_events_service_def)

theorem all_time_bucket_used_for_grouping_witness:
  "take 2 (snd (getData spec_config (plain_query_service [])
                  (data_request ''all'' (Some ''week'')) None None))
     = [GetTimeBucketForAllTime, GroupByTimeBucket (Some ''week'')]
   \<and> take 2 (snd (getData spec_config (plain_query_service [])
                    (data_request ''all'' (Some ''hour'')) None None))
     = [GetTimeBucketForAllTime, GroupByTimeBucket (Some ''day'')]
   \<and> snd (getPerfData spec_config (plain_query_service [])
             (perf_request ''all'' (Some ''month'')) None None)
     = [GetTimeBucketForAllTime, GroupPerfByTimeBucket (Some ''month'')]
   \<and> snd (getPerfData spec_config (plain_query_service [])
             (perf_request ''all'' (Some ''hour'')) None None)
     = [GetTimeBucketForAllTime, GroupPerfByTimeBucket (Some ''day'')]
   \<and> (\<forall>gt. snd (getCustomEvents gt spec_config custom_events_service
                    (custom_events_request ''all'' (Some ''week'') None (Some ''signup''))
                    None None)
           = [GetTimeBucketForAllTime, GroupCustomEVByTimeBucket (Some ''week'')])
   \<and> (\<forall>gt. snd (getCustomEvents gt spec_config custom_events_service
                    (custom_events_request ''all'' (Some ''minute'') None (Some ''signup''))
                    None None)
           = [GetTimeBucketForAllTime, GroupCustomEVByTimeBucket (Some ''day'')])"
proof -
  let ?svc = "plain_query_service [] :: nat query_service"
  let ?res = "\<lparr>allowed_timeBucket = [''day'', ''week'', ''month''], diff = 40\<rparr>"
  let ?ce = "\<lambda>tb. custom_events_request ''all'' tb None (Some ''signup'')"
  have l: "last_elem (VALID_PERIODS spec_config) = Some ''all''"
    by (simp add: spec_config_def last_elem_def)
  have p1: "period (data_request ''all'' tb) = ''all''" for tb
    by (simp add: data_request_def)
  have p2: "period (perf_request ''all'' tb) = ''all''" for tb
    by (simp add: perf_request_def)
  have p3: "period (?ce tb) = ''all''" for tb
    by (simp add: custom_events_request_def)
  have c1: "validatePID ?svc (pid (data_request ''all'' tb)) = None
            \<and> checkProjectAccess ?svc (pid (data_request ''all'' tb)) None None = None
            \<and> (\<exists>ms. parseMetrics ?svc (metrics (data_request ''all'' tb)) = Inr ms
                      \<and> length ms \<le> MAX_METRICS_IN_VIEW spec_config)
            \<and> (\<exists>fq. getFiltersQuery ?svc (filters (data_request ''all'' tb)) ANALYTICS = Inr fq)
            \<and> (\<exists>g. getGroupFromTo ?svc (from' (data_request ''all'' tb))
                       (to' (data_request ''all'' tb))
                       (requested_or_first (allowed_timeBucket ?res)
                          (timeBucket (data_request ''all'' tb)))
                       (period (data_request ''all'' tb))
                       (getSafeTimezone ?svc
                          (or_else (timezone (data_request ''all'' tb))
                             (DEFAULT_TIMEZONE spec_config)))
                       (Some (diff ?res)) = Inr g)" for tb
    by (simp add: plain_query_service_def)
  have c2: "validatePID ?svc (pid (perf_request ''all'' tb)) = None
            \<and> checkIfPerfMeasureIsValid ?svc
                (or_else (measure (perf_request ''all'' tb)) DEFAULT_MEASURE) = None
            \<and> checkProjectAccess ?svc (pid (perf_request ''all'' tb)) None None = None
            \<and> (\<exists>fq. getFiltersQuery ?svc (filters (perf_request ''all'' tb)) PERFORMANCE
                      = Inr fq)
            \<and> (\<exists>g. getGroupFromTo ?svc (from' (perf_request ''all'' tb))
                       (to' (perf_request ''all'' tb))
                       (requested_or_first (allowed_timeBucket ?res)
                          (timeBucket (perf_request ''all'' tb)))
                       (period (perf_request ''all'' tb))
                       (getSafeTimezone ?svc
                          (or_else (timezone (perf_request ''all'' tb))
                             (DEFAULT_TIMEZONE spec_config)))
                       (Some (diff ?res)) = Inr g)" for tb
    by (simp add: plain_query_service_def)
  have c3: "validatePID custom_events_service (pid (?ce tb)) = None
            \<and> checkProjectAccess custom_events_service (pid (?ce tb)) None None = None
            \<and> (\<exists>fq. getFiltersQuery custom_events_service (filters (?ce tb)) ANALYTICS
                      = Inr fq)
            \<and> (\<exists>g. getGroupFromTo custom_events_service (from' (?ce tb)) (to' (?ce tb))
                       (requested_or_first (allowed_timeBucket ?res) (timeBucket (?ce tb)))
                       (period (?ce tb))
                       (getSafeTimezone custom_events_service
                          (or_else (timezone (?ce tb)) (DEFAULT_TIMEZONE spec_config)))
                       (Some (diff ?res)) = Inr g)" for tb
    by (simp add: custom_events_service_def)
  have b1: "requested_or_first (allowed_timeBucket ?res)
              (timeBucket (data_request ''all'' (Some ''week''))) = Some ''week''"
    and b1': "requested_or_first (allowed_timeBucket ?res)
              (timeBucket (data_request ''all'' (Some ''hour''))) = Some ''day''"
    by (simp_all add: requested_or_first_def data_request_def)
  have b2: "requested_or_first (allowed_timeBucket ?res)
              (timeBucket (perf_request ''all'' (Some ''month''))) = Some ''month''"
    and b2': "requested_or_first (allowed_timeBucket ?res)
              (timeBucket (perf_request ''all'' (Some ''hour''))) = Some ''day''"
    by (simp_all add: requested_or_first_def perf_request_def)
  have b3: "requested_or_first (allowed_timeBucket ?res)
              (timeBucket (?ce (Some ''week''))) = Some ''week''"
    and b3': "requested_or_first (allowed_timeBucket ?res)
              (timeBucket (?ce (Some ''minute''))) = Some ''day''"
    by (simp_all add: requested_or_first_def custom_events_request_def)
  note m = all_time_bucket_used_for_grouping
             [OF p1[of "Some ''week''"] plain_all_time[of "[]"]
                 p2[of "Some ''month''"] plain_all_time[of "[]"]
                 p3[of "Some ''week''"] l custom_all_time,
              where uid = None and pw = None]
  note f = all_time_bucket_used_for_grouping
             [OF p1[of "Some ''hour''"] plain_all_time[of "[]"]
                 p2[of "Some ''hour''"] plain_all_time[of "[]"]
                 p3[of "Some ''minute''"] l custom_all_time,
              where uid = None and pw = None]
  have r1: "take 2 (snd (getData spec_config ?svc (data_request ''all'' (Some ''week''))
                           None None))
              = [GetTimeBucketForAllTime, GroupByTimeBucket (Some ''week'')]"
    using m[THEN conjunct1, THEN conjunct2, THEN conjunct1, THEN mp, OF c1]
    unfolding b1 .
  have r2: "take 2 (snd (getData spec_config ?svc (data_request ''all'' (Some ''hour''))
                           None None))
              = [GetTimeBucketForAllTime, GroupByTimeBucket (Some ''day'')]"
    using f[THEN conjunct1, THEN conjunct2, THEN conjunct1, THEN mp, OF c1]
    unfolding b1' .
  have r3: "snd (getPerfData spec_config ?svc (perf_request ''all'' (Some ''month''))
                   None None)
              = [GetTimeBucketForAllTime, GroupPerfByTimeBucket (Some ''month'')]"
    using m[THEN conjunct2, THEN conjunct1, THEN conjunct2, THEN conjunct1, THEN mp, OF c2]
    unfolding b2 .
  have r4: "snd (getPerfData spec_config ?svc (perf_request ''all'' (Some ''hour''))
                   None None)
              = [GetTimeBucketForAllTime, GroupPerfByTimeBucket (Some ''day'')]"
    using f[THEN conjunct2, THEN conjunct1, THEN conjunct2, THEN conjunct1, THEN mp, OF c2]
    unfolding b2' .
  have r5: "snd (getCustomEvents gt spec_config custom_events_service (?ce (Some ''week''))
                   None None)
              = [GetTimeBucketForAllTime, GroupCustomEVByTimeBucket (Some ''week'')]" for gt
    using m[THEN conjunct2, THEN conjunct2, THEN conjunct2, THEN conjunct1, THEN mp, OF c3]
    unfolding b3 .
  have r6: "snd (getCustomEvents gt spec_config custom_events_service (?ce (Some ''minute''))
                   None None)
              = [GetTimeBucketForAllTime, GroupCustomEVByTimeBucket (Some ''day'')]" for gt
    using f[THEN conjunct2, THEN conjunct2, THEN conjunct2, THEN conjunct1, THEN mp, OF c3]
    unfolding b3' .
  from r1 r2 r3 r4 r5 r6 show ?thesis by simp
qed

text \<open>
  C7. When \<open>parseMetrics\<close> yields more than \<open>MAX_METRICS_IN_VIEW\<close> metrics, \<open>getData\<close>
  ends in an exception without having issued any store query, so no subset of the
  metrics is computed; when the request has passed \<open>validatePID\<close> and
  \<open>checkProjectAccess\<close>, the exception is \<open>BadRequestException\<close>.
\<close>

theorem getData_rejects_too_many_metrics:
  assumes "parseMetrics svc (metrics data) = Inr parsedMetrics"
    and "length parsedMetrics > MAX_METRICS_IN_VIEW cfg"
  shows "snd (getData cfg svc data uid pw) = []
       \<and> (\<exists>e. fst (getData cfg svc data uid pw) = Inl e)
       \<and> (validatePID svc (pid data) = None \<and> checkProjectAccess svc (pid data) uid pw = None
            \<longrightarrow> fst (getData cfg svc data uid pw) = Inl BadRequestException)"
  using assms by (auto simp: getData_def Let_def split: option.splits)

theorem getData_rejects_too_many_metrics_witness:
  "getData spec_config (plain_query_service [''bounce'', ''views'', ''uniques'', ''sdur''])
     (data_request ''7d'' (Some ''day'')) None None
   = (Inl BadRequestException, [])"
proof -
  let ?svc = "plain_query_service [''bounce'', ''views'', ''uniques'', ''sdur''] :: nat query_service"
  let ?d = "data_request ''7d'' (Some ''day'')"
  have h1: "parseMetrics ?svc (metrics ?d) = Inr [''bounce'', ''views'', ''uniques'', ''sdur'']"
    by (simp add: plain_query_service_def)
  have h2: "length [''bounce'', ''views'', ''uniques'', ''sdur''] > MAX_METRICS_IN_VIEW spec_config"
    by (simp add: spec_config_def)
  have h3: "validatePID ?svc (pid ?d) = None \<and> checkProjectAccess ?svc (pid ?d) None None = None"
    by (simp add: plain_query_service_def)
  from getData_rejects_too_many_metrics[OF h1 h2, where uid = None and pw = None] h3
  show ?thesis by (simp add: prod_eq_iff)
qed

text \<open>
  C6. For the sessions list and the errors list, with \<open>take\<close> read by
  \<open>getSafeNumber(data.take, 30)\<close> and \<open>skip\<close> by \<open>getSafeNumber(data.skip, 0)\<close>: a
  \<open>take\<close> above 150 ends the request in an exception before any store query, and in
  \<open>BadRequestException\<close> once \<open>validatePID\<close> and \<open>checkProjectAccess\<close> have passed;
  a list query that is issued carries a \<open>take\<close> of at most 150 and that \<open>skip\<close>; with
  \<open>take\<close> at most 150 and collaborators that answer, the request succeeds, and a
  successful response reports the two values. An absent \<open>skip\<close> is 0; \<open>skip\<close> is a
  natural number.
\<close>

theorem list_endpoints_take_cap:
  "(((150 < getSafeNumber (take' sd) 30 \<longrightarrow>
       snd (getSessions cfg svc sd uid pw) = []
     \<and> (\<exists>e. fst (getSessions cfg svc sd uid pw) = Inl e)
     \<and> (validatePID svc (pid sd) = None \<and> checkProjectAccess svc (pid sd) uid pw = None
          \<longrightarrow> fst (getSessions cfg svc sd uid pw) = Inl BadRequestException))
   \<and> (\<forall>tk sk. GetSessionsList tk sk \<in> set (snd (getSessions cfg svc sd uid pw)) \<longrightarrow>
         tk = getSafeNumber (take' sd) 30 \<and> tk \<le> 150 \<and> sk = getSafeNumber (skip' sd) 0)
   \<and> (\<forall>r. fst (getSessions cfg svc sd uid pw) = Inr r \<longrightarrow>
         l_take r = getSafeNumber (take' sd) 30 \<and> l_skip r = getSafeNumber (skip' sd) 0
       \<and> GetSessionsList (l_take r) (l_skip r) \<in> set (snd (getSessions cfg svc sd uid pw)))
   \<and> (getSafeNumber (take' sd) 30 \<le> 150
        \<and> validatePID svc (pid sd) = None \<and> checkProjectAccess svc (pid sd) uid pw = None
        \<and> list_collaborators_pass svc sd (or_else (timezone sd) (DEFAULT_TIMEZONE cfg))
             (GetSessionsList (getSafeNumber (take' sd) 30) (getSafeNumber (skip' sd) 0))
        \<longrightarrow> (\<exists>r. fst (getSessions cfg svc sd uid pw) = Inr r)))
    \<and> (skip' sd = None \<longrightarrow> getSafeNumber (skip' sd) 0 = 0))
   \<and> (((150 < getSafeNumber (take' ed) 30 \<longrightarrow>
       snd (getErrors cfg svc ed uid pw) = []
     \<and> (\<exists>e. fst (getErrors cfg svc ed uid pw) = Inl e)
     \<and> (validatePID svc (pid ed) = None \<and> checkProjectAccess svc (pid ed) uid pw = None
          \<longrightarrow> fst (getErrors cfg svc ed uid pw) = Inl BadRequestException))
   \<and> (\<forall>tk sk. GetErrorsList tk sk \<in> set (snd (getErrors cfg svc ed uid pw)) \<longrightarrow>
         tk = getSafeNumber (take' ed) 30 \<and> tk \<le> 150 \<and> sk = getSafeNumber (skip' ed) 0)
   \<and> (\<forall>r. fst (getErrors cfg svc ed uid pw) = Inr r \<longrightarrow>
         l_take r = getSafeNumber (take' ed) 30 \<and> l_skip r = getSafeNumber (skip' ed) 0
       \<and> GetErrorsList (l_take r) (l_skip r) \<in> set (snd (getErrors cfg svc ed uid pw)))
   \<and> (getSafeNumber (take' ed) 30 \<le> 150
        \<and> validatePID svc (pid ed) = None \<and> checkProjectAccess svc (pid ed) uid pw = None
        \<and> list_collaborators_pass svc ed (or_else (timezone ed) (DEFAULT_TIMEZONE cfg))
             (GetErrorsList (getSafeNumber (take' ed) 30) (getSafeNumber (skip' ed) 0))
        \<longrightarrow> (\<exists>r. fst (getErrors cfg svc ed uid pw) = Inr r)))
    \<and> (skip' ed = None \<longrightarrow> getSafeNumber (skip' ed) 0 = 0))"
proof -
  have s: "skip' x = None \<longrightarrow> getSafeNumber (skip' x) 0 = 0" for x :: "'b PaginatedDto_scheme"
    by (simp add: getSafeNumber_def)
  show ?thesis
    by (rule conjI[OF conjI[OF getSessions_take s] conjI[OF getErrors_take s]])
qed

theorem list_endpoints_take_cap_witness:
  "getSessions spec_config (plain_query_service []) (list_request (Some 151) None) None None
     = (Inl BadRequestException, [])
   \<and> getErrors spec_config (plain_query_service []) (errors_request (Some 151) None) None None
     = (Inl BadRequestException, [])
   \<and> (\<exists>r. fst (getSessions spec_config (plain_query_service []) (list_request (Some 150) None)
                  None None) = Inr r \<and> l_take r = 150 \<and> l_skip r = 0)
   \<and> (\<exists>r. fst (getErrors spec_config (plain_query_service []) (errors_request None (Some 7))
                  None None) = Inr r \<and> l_take r = 30 \<and> l_skip r = 7)"
proof -
  let ?svc = "plain_query_service [] :: nat query_service"
  have v: "validatePID ?svc p = None" "checkProjectAccess ?svc p None None = None" for p
    by (simp_all add: plain_query_service_def)
  have pass: "list_collaborators_pass ?svc d z q" for d :: "'a PeriodDto_scheme" and z q
    by (simp add: list_collaborators_pass_def plain_query_service_def)
  have n: "getSafeNumber (take' (list_request (Some 151) None)) 30 = 151"
    "getSafeNumber (take' (errors_request (Some 151) None)) 30 = 151"
    "getSafeNumber (take' (list_request (Some 150) None)) 30 = 150"
    "getSafeNumber (skip' (list_request (Some 150) None)) 0 = 0"
    "getSafeNumber (take' (errors_request None (Some 7))) 30 = 30"
    "getSafeNumber (skip' (errors_request None (Some 7))) 0 = 7"
    by (simp_all add: getSafeNumber_def list_request_def errors_request_def)
  have ar: "(150::nat) < 151" "(150::nat) \<le> 150" "(30::nat) \<le> 150" by simp_all
  note t1 = list_endpoints_take_cap
              [where sd = "list_request (Some 151) None" and cfg = spec_config and svc = ?svc
                 and uid = None and pw = None and ed = "errors_request (Some 151) None",
               unfolded n]
  note t2 = list_endpoints_take_cap
              [where sd = "list_request (Some 150) None" and cfg = spec_config and svc = ?svc
                 and uid = None and pw = None and ed = "errors_request None (Some 7)",
               unfolded n]
  note s1 = t1[THEN conjunct1, THEN conjunct1, THEN conjunct1, THEN mp, OF ar(1)]
  note e1 = t1[THEN conjunct2, THEN conjunct1, THEN conjunct1, THEN mp, OF ar(1)]
  note s2 = t2[THEN conjunct1, THEN conjunct1, THEN conjunct2, THEN conjunct2]
  note e2 = t2[THEN conjunct2, THEN conjunct1, THEN conjunct2, THEN conjunct2]
  have a: "getSessions spec_config ?svc (list_request (Some 151) None) None None
             = (Inl BadRequestException, [])"
    using s1 v by (simp add: prod_eq_iff)
  have b: "getErrors spec_config ?svc (errors_request (Some 151) None) None None
             = (Inl BadRequestException, [])"
    using e1 v by (simp add: prod_eq_iff)
  have "\<exists>r. fst (getSessions spec_config ?svc (list_request (Some 150) None) None None) = Inr r"
    using s2[THEN conjunct2] v ar(2)
      pass[of "list_request (Some 150) None" "or_else (timezone (list_request (Some 150) None))
                 (DEFAULT_TIMEZONE spec_config)" "GetSessionsList 150 0"]
    by simp
  then have c: "\<exists>r. fst (getSessions spec_config ?svc (list_request (Some 150) None) None None)
                     = Inr r \<and> l_take r = 150 \<and> l_skip r = 0"
    using s2[THEN conjunct1] by blast
  have "\<exists>r. fst (getErrors spec_config ?svc (errors_request None (Some 7)) None None) = Inr r"
    using e2[THEN conjunct2] v ar(3)
      pass[of "errors_request None (Some 7)" "or_else (timezone (errors_request None (Some 7)))
                 (DEFAULT_TIMEZONE spec_config)" "GetErrorsList 30 7"]
    by simp
  then have d: "\<exists>r. fst (getErrors spec_config ?svc (errors_request None (Some 7)) None None)
                     = Inr r \<and> l_take r = 30 \<and> l_skip r = 7"
    using e2[THEN conjunct1] by blast
  from a b c d show ?thesis by blast
qed

section \<open>Theorems: \<open>getPIDsArray\<close>\<close>

lemma lex_run_append:
  "lex_run st (a @ b) = (case lex_run st a of None \<Rightarrow> None | Some st' \<Rightarrow> lex_run st' b)"
  by (induction a arbitrary: st) (auto split: option.splits)

lemma hex_val_digit: "d < 16 \<Longrightarrow> hex_val (hex_digit d) = Some d"
proof -
  assume "d < 16"
  then have "d = 0 \<or> d = 1 \<or> d = 2 \<or> d = 3 \<or> d = 4 \<or> d = 5 \<or> d = 6 \<or> d = 7 \<or> d = 8
      \<or> d = 9 \<or> d = 10 \<or> d = 11 \<or> d = 12 \<or> d = 13 \<or> d = 14 \<or> d = 15"
    by arith
  then show ?thesis
    by (elim disjE) (simp_all add: hex_val_def hex_digit_def)
qed

lemma lex_unicode_escape:
  assumes "n < 32"
  shows "lex_run (InStr acc, toks)
           [CHR 0x5C, CHR ''u'', CHR ''0'', CHR ''0'', hex_digit (n div 16), hex_digit (n mod 16)]
         = Some (InStr (acc @ [n]), toks)"
proof -
  have z: "hex_val CHR ''0'' = Some 0" by (simp add: hex_val_def)
  have a: "hex_val (hex_digit (n div 16)) = Some (n div 16)"
    using assms by (intro hex_val_digit) simp
  have b: "hex_val (hex_digit (n mod 16)) = Some (n mod 16)"
    by (intro hex_val_digit) simp
  show ?thesis by (simp add: esc_step_def z a b)
qed

lemma lex_quote_char:
  "lex_run (InStr acc, toks) (quote_char c) = Some (InStr (acc @ [of_char c]), toks)"
proof (cases "c \<in> {CHR 0x08, CHR 0x09, CHR 0x0A, CHR 0x0C, CHR 0x0D, CHR 0x22, CHR 0x5C}")
  case True
  then show ?thesis
    by (elim insertE emptyE) (simp_all add: quote_char_def esc_step_def)
next
  case False
  show ?thesis
  proof (cases "(of_char c :: nat) < 0x20")
    case True
    with False have q: "quote_char c = [CHR 0x5C, CHR ''u'', CHR ''0'', CHR ''0'',
              hex_digit (of_char c div 16), hex_digit (of_char c mod 16)]"
      by (simp add: quote_char_def)
    show ?thesis unfolding q using lex_unicode_escape[of "of_char c" acc toks] True by simp
  next
    case ge: False
    with False show ?thesis by (simp add: quote_char_def)
  qed
qed

lemma lex_quoted:
  "lex_run (InStr acc, toks) (concat (map quote_char s))
     = Some (InStr (acc @ map of_char s), toks)"
proof (induction s arbitrary: acc)
  case Nil
  show ?case by simp
next
  case (Cons c s)
  show ?case
    using Cons.IH[of "acc @ [of_char c]"]
    by (simp add: lex_run_append lex_quote_char)
qed

lemma tokenize_singleton:
  "tokenize (JSON_stringify_strings [p]) = Some [TLBracket, TString (map of_char p), TRBracket]"
proof -
  have "lex_run (Start, []) (JSON_stringify_strings [p])
          = Some (Start, [TLBracket, TString (map of_char p), TRBracket])"
    unfolding JSON_stringify_strings_def quote_string_def
    using lex_quoted[of "[]" "[TLBracket]" p]
    by (simp add: lex_run_append start_step_def is_ws_def)
  then show ?thesis by (simp add: tokenize_def)
qed

lemma JSON_parse_singleton:
  "JSON_parse (JSON_stringify_strings [p]) = Some (JArray [JString (map of_char p)])"
  by (simp add: JSON_parse_def tokenize_singleton value_step_def close_step_def)


text \<open>
  C8. \<open>getPIDsArray\<close>, where a parameter counts as provided when it is a non-empty
  string: \<open>BadRequestException\<close> when neither \<open>pids\<close> nor \<open>pid\<close> is provided and when
  both are; the one-element array of \<open>pid\<close> when only \<open>pid\<close> is provided;
  \<open>UnprocessableEntityException\<close> when \<open>pids\<close> is not valid JSON or parses to a value
  that is no array; the parsed array otherwise. An error branch yields the exception
  alone.
\<close>

theorem getPIDsArray_branches:
  "(isEmpty_str pids \<and> isEmpty_str p \<longrightarrow> getPIDsArray pids p = Inl BadRequestException)
   \<and> (\<not> isEmpty_str pids \<and> \<not> isEmpty_str p
        \<longrightarrow> getPIDsArray pids p = Inl BadRequestException)
   \<and> (isEmpty_str pids \<and> p = Some x \<and> x \<noteq> []
        \<longrightarrow> getPIDsArray pids p = Inr [JString (map of_char x)])
   \<and> (pids = Some s \<and> s \<noteq> [] \<and> isEmpty_str p \<and> JSON_parse s = None
        \<longrightarrow> getPIDsArray pids p = Inl UnprocessableEntityException)
   \<and> (pids = Some s \<and> s \<noteq> [] \<and> isEmpty_str p \<and> JSON_parse s = Some v
        \<and> (\<forall>arr. v \<noteq> JArray arr)
        \<longrightarrow> getPIDsArray pids p = Inl UnprocessableEntityException)
   \<and> (pids = Some s \<and> s \<noteq> [] \<and> isEmpty_str p \<and> JSON_parse s = Some (JArray arr)
        \<longrightarrow> getPIDsArray pids p = Inr arr)"
proof (intro conjI impI)
  assume "isEmpty_str pids \<and> isEmpty_str p"
  then show "getPIDsArray pids p = Inl BadRequestException"
    by (simp add: getPIDsArray_def)
next
  assume "\<not> isEmpty_str pids \<and> \<not> isEmpty_str p"
  then show "getPIDsArray pids p = Inl BadRequestException"
    by (simp add: getPIDsArray_def)
next
  assume "isEmpty_str pids \<and> p = Some x \<and> x \<noteq> []"
  then show "getPIDsArray pids p = Inr [JString (map of_char x)]"
    by (simp add: getPIDsArray_def isEmpty_str_def the_str_def JSON_parse_singleton)
next
  assume "pids = Some s \<and> s \<noteq> [] \<and> isEmpty_str p \<and> JSON_parse s = None"
  then show "getPIDsArray pids p = Inl UnprocessableEntityException"
    by (simp add: getPIDsArray_def isEmpty_str_def the_str_def)
next
  assume "pids = Some s \<and> s \<noteq> [] \<and> isEmpty_str p \<and> JSON_parse s = Some v
            \<and> (\<forall>arr. v \<noteq> JArray arr)"
  then show "getPIDsArray pids p = Inl UnprocessableEntityException"
    by (cases v) (simp_all add: getPIDsArray_def isEmpty_str_def the_str_def)
next
  assume "pids = Some s \<and> s \<noteq> [] \<and> isEmpty_str p \<and> JSON_parse s = Some (JArray arr)"
  then show "getPIDsArray pids p = Inr arr"
    by (simp add: getPIDsArray_def isEmpty_str_def the_str_def)
qed

theorem getPIDsArray_branches_witness:
  "getPIDsArray None None = Inl BadRequestException
   \<and> getPIDsArray (Some ''[\"a\"]'') (Some ''STEzHcB1rALV'') = Inl BadRequestException
   \<and> getPIDsArray None (Some ''STEzHcB1rALV'')
       = Inr [JString [83, 84, 69, 122, 72, 99, 66, 49, 114, 65, 76, 86]]
   \<and> getPIDsArray (Some ''[\"a\",'') None = Inl UnprocessableEntityException
   \<and> getPIDsArray (Some ''{\"a\": 1}'') None = Inl UnprocessableEntityException
   \<and> getPIDsArray (Some ''[\"a\", \"b\"]'') None = Inr [JString [97], JString [98]]"
proof -
  have e: "isEmpty_str None" "\<not> isEmpty_str (Some ''[\"a\"]'')"
    "\<not> isEmpty_str (Some ''STEzHcB1rALV'')"
    by (simp_all add: isEmpty_str_def)
  have j1: "JSON_parse ''[\"a\",'' = None" by (simp add: json_eval)
  have j2: "JSON_parse ''{\"a\": 1}'' = Some (JObject [([97], JNumber ''1'')])"
    by (simp add: json_eval)
  have j3: "JSON_parse ''[\"a\", \"b\"]'' = Some (JArray [JString [97], JString [98]])"
    by (simp add: json_eval)
  have a: "getPIDsArray None None = Inl BadRequestException"
    using getPIDsArray_branches[of None None] e by blast
  have b: "getPIDsArray (Some ''[\"a\"]'') (Some ''STEzHcB1rALV'') = Inl BadRequestException"
    using getPIDsArray_branches[of "Some ''[\"a\"]''" "Some ''STEzHcB1rALV''"] e by blast
  have "getPIDsArray None (Some ''STEzHcB1rALV'')
          = Inr [JString (map of_char ''STEzHcB1rALV'')]"
    using getPIDsArray_branches[of None "Some ''STEzHcB1rALV''" "''STEzHcB1rALV''"] e by blast
  then have c: "getPIDsArray None (Some ''STEzHcB1rALV'')
       = Inr [JString [83, 84, 69, 122, 72, 99, 66, 49, 114, 65, 76, 86]]"
    by simp
  have d: "getPIDsArray (Some ''[\"a\",'') None = Inl UnprocessableEntityException"
    using getPIDsArray_branches[of "Some ''[\"a\",''" None _ "''[\"a\",''"] e j1 by blast
  have f: "getPIDsArray (Some ''{\"a\": 1}'') None = Inl UnprocessableEntityException"
    using getPIDsArray_branches[of "Some ''{\"a\": 1}''" None _ "''{\"a\": 1}''"
            "JObject [([97], JNumber ''1'')]"] e j2 by blast
  have g: "getPIDsArray (Some ''[\"a\", \"b\"]'') None = Inr [JString [97], JString [98]]"
    using getPIDsArray_branches[of "Some ''[\"a\", \"b\"]''" None _ "''[\"a\", \"b\"]''" _
            "[JString [97], JString [98]]"] e j3 by blast
  from a b c d f g show ?thesis by blast
qed

section \<open>Theorems: visitor identity\<close>

lemma same_period_within_window:
  fixes w :: nat
  assumes "0 < w" and "now1 div w = now2 div w"
  shows "now2 < now1 + w"
proof -
  have a: "now2 mod w < w" using assms(1) by simp
  have b: "now2 = now2 div w * w + now2 mod w" by simp
  have c: "now2 div w * w = now1 div w * w" using assms(2) by simp
  have d: "now1 div w * w \<le> now1" by simp
  from a b c d show ?thesis by linarith
qed

lemma isUnique_fresh:
  assumes "live_marker now (markers st (visitor_hash cfg now projectId userAgent ip)) = None"
  shows "AnalyticsService_isUnique cfg now projectId userAgent ip st =
           ((True, next_session_id st),
            st\<lparr>markers := (markers st)(visitor_hash cfg now projectId userAgent ip
                               \<mapsto> (next_session_id st, now + rotation_window cfg)),
               next_session_id := Suc (next_session_id st)\<rparr>)"
  using assms by (simp add: AnalyticsService_isUnique_def Let_def)

lemma isUnique_marked:
  assumes "live_marker now (markers st (visitor_hash cfg now projectId userAgent ip)) = Some sid"
  shows "AnalyticsService_isUnique cfg now projectId userAgent ip st =
           ((False, sid),
            st\<lparr>markers := (markers st)(visitor_hash cfg now projectId userAgent ip
                               \<mapsto> (sid, now + rotation_window cfg))\<rparr>)"
  using assms by (simp add: AnalyticsService_isUnique_def Let_def)

text \<open>
  Two calls in different rotation periods hash with different salts: in the
  configuration with a 24 hour window, a fresh visitor's call one second before the
  rotation and the same visitor's call at the rotation are both unique, with different
  session ids.
\<close>

lemma isUnique_across_rotation:
  "fst (AnalyticsService_isUnique day_config 86399 ''abcdefghijkl'' ''Mozilla/5.0''
          ''203.0.113.7'' no_markers) = (True, 0)
   \<and> fst (AnalyticsService_isUnique day_config 86400 ''abcdefghijkl'' ''Mozilla/5.0''
            ''203.0.113.7''
            (snd (AnalyticsService_isUnique day_config 86399 ''abcdefghijkl'' ''Mozilla/5.0''
                    ''203.0.113.7'' no_markers))) = (True, 1)"
  by (simp add: AnalyticsService_isUnique_def visitor_hash_def rotation_period_def
      day_config_def no_markers_def live_marker_def Let_def)

text \<open>
  C5. When \<open>isUnique\<close> is called twice in succession with the same
  (ip, userAgent, projectId), the second call on the marker state the first one left:
  for a visitor with no live marker before the first call, and both calls in the same
  rotation period (the second not before the first; the window is positive), the
  first call returns unique and mints the session id, the second call returns not
  unique, and both return the same session id. So exactly one of the two calls
  returns unique, the first.
\<close>

theorem isUnique_twice_in_succession:
  assumes "0 < rotation_window cfg"
    and "now1 \<le> now2"
    and "rotation_period cfg now1 = rotation_period cfg now2"
    and "live_marker now1 (markers st (visitor_hash cfg now1 projectId userAgent ip)) = None"
  shows "fst (AnalyticsService_isUnique cfg now1 projectId userAgent ip st)
           = (True, next_session_id st)
       \<and> fst (AnalyticsService_isUnique cfg now2 projectId userAgent ip
                (snd (AnalyticsService_isUnique cfg now1 projectId userAgent ip st)))
           = (False, next_session_id st)"
proof -
  let ?h1 = "visitor_hash cfg now1 projectId userAgent ip"
  let ?st1 = "st\<lparr>markers := (markers st)(?h1 \<mapsto> (next_session_id st, now1 + rotation_window cfg)),
                  next_session_id := Suc (next_session_id st)\<rparr>"
  have first: "AnalyticsService_isUnique cfg now1 projectId userAgent ip st
                 = ((True, next_session_id st), ?st1)"
    by (rule isUnique_fresh[OF assms(4)])
  have same: "visitor_hash cfg now2 projectId userAgent ip = ?h1"
    using assms(3) by (simp add: visitor_hash_def)
  have inside: "now2 < now1 + rotation_window cfg"
    using same_period_within_window[OF assms(1)] assms(3) by (simp add: rotation_period_def)
  have live: "live_marker now2 (markers ?st1 (visitor_hash cfg now2 projectId userAgent ip))
                = Some (next_session_id st)"
    using inside by (simp add: same live_marker_def)
  have second: "fst (AnalyticsService_isUnique cfg now2 projectId userAgent ip ?st1)
                  = (False, next_session_id st)"
    by (simp add: isUnique_marked[OF live])
  show ?thesis using first second by simp
qed

theorem isUnique_twice_in_succession_witness:
  "fst (AnalyticsService_isUnique day_config 10 ''abcdefghijkl'' ''Mozilla/5.0'' ''203.0.113.7''
          no_markers) = (True, 0)
   \<and> fst (AnalyticsService_isUnique day_config 10 ''abcdefghijkl'' ''Mozilla/5.0''
            ''203.0.113.7''
            (snd (AnalyticsService_isUnique day_config 10 ''abcdefghijkl'' ''Mozilla/5.0''
                    ''203.0.113.7'' no_markers))) = (False, 0)
   \<and> fst (AnalyticsService_isUnique day_config 86399 ''abcdefghijkl'' ''Mozilla/5.0''
            ''203.0.113.7''
            (snd (AnalyticsService_isUnique day_config 10 ''abcdefghijkl'' ''Mozilla/5.0''
                    ''203.0.113.7'' no_markers))) = (False, 0)"
proof -
  have h1: "0 < rotation_window day_config" by (simp add: day_config_def)
  have h2: "(10::nat) \<le> 10" and h2': "(10::nat) \<le> 86399" by simp_all
  have h3: "rotation_period day_config 10 = rotation_period day_config 10"
    and h3': "rotation_period day_config 10 = rotation_period day_config 86399"
    by (simp_all add: rotation_period_def day_config_def)
  have h4: "live_marker 10
              (markers no_markers
                 (visitor_hash day_config 10 ''abcdefghijkl'' ''Mozilla/5.0'' ''203.0.113.7''))
              = None"
    by (simp add: live_marker_def no_markers_def)
  have n: "next_session_id no_markers = 0" by (simp add: no_markers_def)
  note a = isUnique_twice_in_succession[OF h1 h2 h3 h4]
  note b = isUnique_twice_in_succession[OF h1 h2' h3' h4]
  from a b show ?thesis unfolding n by simp
qed

end
